theory Spec2Isabelle
  imports Complex_Main
begin

section \<open>Numbers of the program\<close>

text \<open>
  The program computes with numpy's 64-bit floats.  Rounding and the finite range are not
  modelled: a finite float is a real number and arithmetic on finite values is exact.
  What is modelled is the part of the float semantics the program's control flow and
  domain guards depend on: the two infinities, the value nan, their propagation through
  the operations, and comparisons with nan being false.  There is one zero (no \<open>-0.0\<close>): a
  nonzero value divided by zero is the infinity with the sign of the numerator.
  numpy signals a domain error or a division by zero with a warning only, never with an
  exception; where Python's own float arithmetic raises is said below.
\<close>

datatype fl = Fin real | PInf | NInf | NaN

fun positive :: "fl \<Rightarrow> bool" where
  "positive (Fin c) = (0 < c)"
| "positive PInf = True"
| "positive NInf = False"
| "positive NaN = False"

instantiation fl :: "{one, plus, uminus, minus, times, inverse, abs, ord, power}"
begin

definition one_fl :: fl where
  "one_fl = Fin 1"

fun plus_fl :: "fl \<Rightarrow> fl \<Rightarrow> fl" where
  "plus_fl (Fin c) (Fin d) = Fin (c + d)"
| "plus_fl NaN _ = NaN"
| "plus_fl _ NaN = NaN"
| "plus_fl PInf NInf = NaN"
| "plus_fl NInf PInf = NaN"
| "plus_fl PInf _ = PInf"
| "plus_fl _ PInf = PInf"
| "plus_fl NInf _ = NInf"
| "plus_fl _ NInf = NInf"

fun uminus_fl :: "fl \<Rightarrow> fl" where
  "uminus_fl (Fin c) = Fin (- c)"
| "uminus_fl PInf = NInf"
| "uminus_fl NInf = PInf"
| "uminus_fl NaN = NaN"

definition minus_fl :: "fl \<Rightarrow> fl \<Rightarrow> fl" where
  "minus_fl y z = y + (- z)"

fun times_fl :: "fl \<Rightarrow> fl \<Rightarrow> fl" where
  "times_fl (Fin c) (Fin d) = Fin (c * d)"
| "times_fl NaN _ = NaN"
| "times_fl _ NaN = NaN"
| "times_fl y z =
     (if y = Fin 0 \<or> z = Fin 0 then NaN
      else if positive y = positive z then PInf else NInf)"

fun inverse_fl :: "fl \<Rightarrow> fl" where
  "inverse_fl (Fin c) = (if c = 0 then PInf else Fin (inverse c))"
| "inverse_fl PInf = Fin 0"
| "inverse_fl NInf = Fin 0"
| "inverse_fl NaN = NaN"

fun divide_fl :: "fl \<Rightarrow> fl \<Rightarrow> fl" where
  "divide_fl (Fin c) (Fin d) =
     (if d \<noteq> 0 then Fin (c / d)
      else if c = 0 then NaN else if 0 < c then PInf else NInf)"
| "divide_fl NaN _ = NaN"
| "divide_fl _ NaN = NaN"
| "divide_fl (Fin c) _ = Fin 0"
| "divide_fl PInf (Fin d) = (if 0 \<le> d then PInf else NInf)"
| "divide_fl NInf (Fin d) = (if 0 \<le> d then NInf else PInf)"
| "divide_fl _ _ = NaN"

fun abs_fl :: "fl \<Rightarrow> fl" where
  "abs_fl (Fin c) = Fin \<bar>c\<bar>"
| "abs_fl PInf = PInf"
| "abs_fl NInf = PInf"
| "abs_fl NaN = NaN"

fun less_eq_fl :: "fl \<Rightarrow> fl \<Rightarrow> bool" where
  "less_eq_fl (Fin c) (Fin d) = (c \<le> d)"
| "less_eq_fl NaN _ = False"
| "less_eq_fl _ NaN = False"
| "less_eq_fl NInf _ = True"
| "less_eq_fl _ PInf = True"
| "less_eq_fl _ _ = False"

fun less_fl :: "fl \<Rightarrow> fl \<Rightarrow> bool" where
  "less_fl (Fin c) (Fin d) = (c < d)"
| "less_fl NaN _ = False"
| "less_fl _ NaN = False"
| "less_fl PInf _ = False"
| "less_fl _ NInf = False"
| "less_fl _ _ = True"

instance ..

end

subsection \<open>The numpy functions the program calls\<close>

fun np_sqrt :: "fl \<Rightarrow> fl" where
  "np_sqrt (Fin c) = (if c < 0 then NaN else Fin (sqrt c))"
| "np_sqrt PInf = PInf"
| "np_sqrt NInf = NaN"
| "np_sqrt NaN = NaN"

fun np_sin :: "fl \<Rightarrow> fl" where
  "np_sin (Fin c) = Fin (sin c)"
| "np_sin _ = NaN"

fun np_cos :: "fl \<Rightarrow> fl" where
  "np_cos (Fin c) = Fin (cos c)"
| "np_cos _ = NaN"

text \<open>The tangent is the quotient of sine and cosine, so it is infinite at a pole
  (a float argument never hits a pole exactly; an exact real can).\<close>

definition np_tan :: "fl \<Rightarrow> fl" where
  "np_tan y = np_sin y / np_cos y"

text \<open>The inverse sine and cosine are nan outside \<open>[-1, 1]\<close>.\<close>

fun np_arccos :: "fl \<Rightarrow> fl" where
  "np_arccos (Fin c) = (if - 1 \<le> c \<and> c \<le> 1 then Fin (arccos c) else NaN)"
| "np_arccos _ = NaN"

fun np_arcsin :: "fl \<Rightarrow> fl" where
  "np_arcsin (Fin c) = (if - 1 \<le> c \<and> c \<le> 1 then Fin (arcsin c) else NaN)"
| "np_arcsin _ = NaN"

fun np_arctan :: "fl \<Rightarrow> fl" where
  "np_arctan (Fin c) = Fin (arctan c)"
| "np_arctan PInf = Fin (pi / 2)"
| "np_arctan NInf = Fin (- (pi / 2))"
| "np_arctan NaN = NaN"

fun np_isnan :: "fl \<Rightarrow> bool" where
  "np_isnan NaN = True"
| "np_isnan _ = False"

text \<open>\<open>np.maximum\<close> and \<open>np.minimum\<close> propagate nan; \<open>np.clip(y, lo, hi)\<close> is
  \<open>np.minimum(np.maximum(y, lo), hi)\<close>.\<close>

definition np_maximum :: "fl \<Rightarrow> fl \<Rightarrow> fl" where
  "np_maximum y z = (if np_isnan y \<or> np_isnan z then NaN else if y < z then z else y)"

definition np_minimum :: "fl \<Rightarrow> fl \<Rightarrow> fl" where
  "np_minimum y z = (if np_isnan y \<or> np_isnan z then NaN else if z < y then z else y)"

definition np_clip :: "fl \<Rightarrow> fl \<Rightarrow> fl \<Rightarrow> fl" where
  "np_clip y lo hi = np_minimum (np_maximum y lo) hi"

subsection \<open>Python floats and numpy floats\<close>

text \<open>
  The class constants and the literals of the program are Python floats, the results of
  the numpy functions are numpy floats; of what kind the attributes of an orbit state and
  the arguments \<open>lam1\<close> and \<open>rf\<close> are is for the caller to say, so such a number carries its
  kind.  The two kinds have the same values and the same arithmetic, and an operation
  with a numpy operand is a numpy operation.  They differ where both operands are Python
  floats: a division by zero raises \<open>ZeroDivisionError\<close>, and a power \<open>y ** n\<close> of a finite
  \<open>y\<close> whose result exceeds the largest double raises \<open>OverflowError\<close>.  (This is the
  only place where the finite range is modelled.)
\<close>

datatype num = Py fl | Np fl

fun val :: "num \<Rightarrow> fl" where
  "val (Py y) = y"
| "val (Np y) = y"

fun is_py :: "num \<Rightarrow> bool" where
  "is_py (Py y) = True"
| "is_py (Np y) = False"

definition DBL_MAX :: real where
  "DBL_MAX = (2 - 1 / 2 ^ 52) * 2 ^ 1023"

datatype error = ValueError string | ZeroDivisionError | OverflowError

text \<open>Whether \<open>y / z\<close> and \<open>y ** n\<close> raise.\<close>

definition div_raises :: "num \<Rightarrow> num \<Rightarrow> bool" where
  "div_raises y z = (is_py y \<and> is_py z \<and> val z = Fin 0)"

fun pow_raises :: "num \<Rightarrow> nat \<Rightarrow> bool" where
  "pow_raises (Py (Fin c)) n = (DBL_MAX < \<bar>c ^ n\<bar>)"
| "pow_raises _ n = False"

text \<open>The first exception of a sequence of operations, given in the order in which the
  program performs them.\<close>

fun first_raise :: "(bool \<times> error) list \<Rightarrow> error option" where
  "first_raise [] = None"
| "first_raise ((raises, err) # rest) = (if raises then Some err else first_raise rest)"

section \<open>Physical constants of the earth--moon system\<close>

text \<open>The class attributes of \<open>PatchedConic\<close>; \<open>mu_moon\<close> is \<open>PatchedConic.mu\<close>
  (the name \<open>SGRA\<close> gives it), since \<open>mu\<close> is also a field of an orbit.\<close>

definition D :: real where
  "D = 384402000"

definition OMEGA :: real where
  "OMEGA = 2649 / 1000000"

definition V :: real where
  "V = OMEGA * D"

definition R :: real where
  "R = 1737000"

definition mu_moon :: real where
  "mu_moon = 4904869500000"

definition mu_earth :: real where
  "mu_earth = 398600441800000"

definition r_soi :: real where
  "r_soi = (mu_moon / mu_earth) powr (4 / 10) * D"

section \<open>Orbit states\<close>

text \<open>
  The class \<open>Orbit\<close> (module \<open>orbit\<close>) is not part of the source file.  An orbit state is
  the record of the attributes \<open>PatchedConic\<close> reads from it; the constructor
  \<open>Orbit(mu, r, v, phi)\<close> and the method \<open>at(r, sign='+')\<close> are parameters of the
  functions that call them.
\<close>

record OrbitState =
  mu :: num
  r :: num
  v :: num
  phi :: num
  e :: num
  a :: num
  cos_E :: num
  cos_nu :: num
  h :: num

type_synonym orbit_ctor = "num \<Rightarrow> num \<Rightarrow> num \<Rightarrow> num \<Rightarrow> OrbitState"

type_synonym orbit_at = "OrbitState \<Rightarrow> num \<Rightarrow> OrbitState"

section \<open>The patched conic\<close>

text \<open>The attributes \<open>__init__\<close> assigns before it calls \<open>compute_gradients\<close>, in the
  order of their first assignment.\<close>

record PatchedConic =
  depart :: OrbitState
  arrive :: OrbitState
  lam1 :: num
  rf :: num
  r :: fl
  v :: fl
  phi :: fl
  eps :: fl
  Q :: fl
  vf :: fl
  gam0 :: fl
  E0 :: fl
  nu0 :: fl
  t0 :: fl
  gam1 :: fl
  E1 :: fl
  nu1 :: fl
  t1 :: fl
  ef :: fl
  af :: fl
  rpl :: fl
  vpl :: fl

text \<open>
  \<open>PatchedConic.__init__\<close>, in three parts: the values it assigns, the Python exceptions
  of its arithmetic, and (after the sensitivities below) the constructor that puts them
  together with the guard on the arrival orbit's semimajor axis.  The values are pure,
  so checking for the exceptions first, in the order of the program, gives the same
  outcome as raising them on the way.
\<close>

definition init_attributes ::
  "OrbitState \<Rightarrow> OrbitState \<Rightarrow> num \<Rightarrow> num \<Rightarrow> PatchedConic" where
  "init_attributes depart' arrive' lam1' rf' =
    (let cE0 = val (cos_E depart');
         cE1 = val (cos_E arrive');
         E0 = np_arccos cE0;
         E1 = np_arccos cE1;
         sE0 = np_sin E0;
         sE1 = np_sin E1;
         e = val (e arrive');
         tof = np_sqrt (val (a arrive') ^ 3 / val (mu arrive'))
                 * ((E1 - e * sE1) - (E0 - e * sE0));
         cnu0 = val (cos_nu depart');
         cnu1 = val (cos_nu arrive');
         nu0 = np_arccos cnu0;
         nu1 = np_arccos cnu1;
         sg1 = np_clip ((Fin r_soi / val (OrbitState.r arrive')) * np_sin (val lam1'))
                 (Fin (- 1)) (Fin 1);
         gam1 = np_arcsin sg1;
         gam0 = nu1 - nu0 - gam1 - Fin OMEGA * tof;
         v1 = val (OrbitState.v arrive');
         v2 = np_sqrt (v1 ^ 2 + Fin V ^ 2
                - Fin 2 * v1 * Fin V * np_cos (val (OrbitState.phi arrive') - gam1));
         phi1 = val (OrbitState.phi arrive');
         seps2 = np_clip ((Fin V * np_cos (val lam1') - v1 * np_cos (val lam1' + gam1 - phi1))
                            / (- v2))
                   (Fin (- 1)) (Fin 1);
         eps2 = np_arcsin seps2;
         tan_lam1_pm_phi2 =
           - v1 * np_sin (phi1 - gam1) / (Fin V - v1 * np_cos (phi1 - gam1));
         phi2 = np_arctan tan_lam1_pm_phi2 - val lam1';
         Q2 = Fin r_soi * v2 ^ 2 / Fin mu_moon;
         ef = np_sqrt (Fin 1 + Q2 * (Q2 - Fin 2) * np_cos phi2 ^ 2);
         af = Fin r_soi / (Fin 2 - Q2)
     in \<lparr> depart = depart', arrive = arrive', lam1 = lam1', rf = rf',
          r = Fin r_soi, v = v2, phi = phi2, eps = eps2,
          Q = Q2, vf = np_sqrt (Fin mu_moon / val rf'),
          gam0 = gam0, E0 = E0, nu0 = nu0, t0 = Fin 0,
          gam1 = gam1, E1 = E1, nu1 = nu1, t1 = tof,
          ef = ef, af = af,
          rpl = af * (Fin 1 - ef),
          vpl = np_sqrt ((Fin mu_moon * (Fin 1 + ef)) / (af * (Fin 1 - ef))) \<rparr>)"

text \<open>
  The operations of \<open>__init__\<close> on two Python floats that can raise, in program order:
  \<open>arrive.a**3\<close> and the quotient by \<open>arrive.mu\<close> (the power has the kind of its base),
  \<open>self.r_soi / arrive.r\<close>, \<open>v1**2\<close>, and \<open>self.mu / self.rf\<close>.
\<close>

definition init_raises :: "OrbitState \<Rightarrow> OrbitState \<Rightarrow> num \<Rightarrow> num \<Rightarrow> error option" where
  "init_raises depart' arrive' lam1' rf' =
     first_raise
       [(pow_raises (a arrive') 3, OverflowError),
        (div_raises (a arrive') (mu arrive'), ZeroDivisionError),
        (div_raises (Py (Fin r_soi)) (OrbitState.r arrive'), ZeroDivisionError),
        (pow_raises (OrbitState.v arrive') 2, OverflowError),
        (div_raises (Py (Fin mu_moon)) rf', ZeroDivisionError)]"

subsection \<open>Sensitivities: \<open>compute_gradients\<close>\<close>

text \<open>
  \<open>compute_gradients\<close> runs once, as the last statement of \<open>__init__\<close>, and assigns each
  of its attributes once, from attributes that are already there; no attribute is
  reassigned afterwards.  So each attribute it assigns is a function of the record above,
  defined here in the order of the assignments and by the same expression: \<open>self.lam\<close>
  of the program is \<open>lam self\<close>.  The Python exceptions of the method come after the
  attributes.  First the local shorthands of the method.
\<close>

named_theorems shorthand

definition v0 :: "PatchedConic \<Rightarrow> fl" where [shorthand]:
  "v0 self = val (OrbitState.v (depart self))"

definition v1 :: "PatchedConic \<Rightarrow> fl" where [shorthand]:
  "v1 self = val (OrbitState.v (arrive self))"

definition v2 :: "PatchedConic \<Rightarrow> fl" where [shorthand]:
  "v2 self = v self"

definition vM :: fl where [shorthand]:
  "vM = Fin V"

definition Q2 :: "PatchedConic \<Rightarrow> fl" where [shorthand]:
  "Q2 self = Q self"

definition phi0 :: "PatchedConic \<Rightarrow> fl" where [shorthand]:
  "phi0 self = val (OrbitState.phi (depart self))"

definition phi1 :: "PatchedConic \<Rightarrow> fl" where [shorthand]:
  "phi1 self = val (OrbitState.phi (arrive self))"

definition phi2 :: "PatchedConic \<Rightarrow> fl" where [shorthand]:
  "phi2 self = phi self"

definition cphi2 :: "PatchedConic \<Rightarrow> fl" where [shorthand]:
  "cphi2 self = np_cos (phi2 self)"

definition sphi2 :: "PatchedConic \<Rightarrow> fl" where [shorthand]:
  "sphi2 self = np_sin (phi2 self)"

definition cphi1 :: "PatchedConic \<Rightarrow> fl" where [shorthand]:
  "cphi1 self = np_cos (phi1 self)"

definition sphi1 :: "PatchedConic \<Rightarrow> fl" where [shorthand]:
  "sphi1 self = np_sin (phi1 self)"

definition tphi1 :: "PatchedConic \<Rightarrow> fl" where [shorthand]:
  "tphi1 self = np_tan (phi1 self)"

definition cgam1 :: "PatchedConic \<Rightarrow> fl" where [shorthand]:
  "cgam1 self = np_cos (gam1 self)"

definition cpmg1 :: "PatchedConic \<Rightarrow> fl" where [shorthand]:
  "cpmg1 self = np_cos (phi1 self - gam1 self)"

definition spmg1 :: "PatchedConic \<Rightarrow> fl" where [shorthand]:
  "spmg1 self = np_sin (phi1 self - gam1 self)"

text \<open>Eq. 57--61\<close>

definition dv1_dv0 :: "PatchedConic \<Rightarrow> fl" where
  "dv1_dv0 self = v0 self / v1 self"

definition dphi1_dv0 :: "PatchedConic \<Rightarrow> fl" where
  "dphi1_dv0 self = (v0 self / v1 self - v1 self / v0 self) / (v1 self * tphi1 self)"

definition dv2_dv0 :: "PatchedConic \<Rightarrow> fl" where
  "dv2_dv0 self =
     ((v1 self - vM * cpmg1 self) / v2 self) * dv1_dv0 self
     + ((v1 self * vM * spmg1 self) / v2 self) * dphi1_dv0 self"

definition dphi2_dv1 :: "PatchedConic \<Rightarrow> fl" where
  "dphi2_dv1 self = - vM * spmg1 self / v2 self ^ 2"

definition dphi2_dphi1 :: "PatchedConic \<Rightarrow> fl" where
  "dphi2_dphi1 self = (v1 self ^ 2 - v1 self * vM * cpmg1 self) / v2 self ^ 2"

definition dphi2_dv0 :: "PatchedConic \<Rightarrow> fl" where
  "dphi2_dv0 self = dphi2_dv1 self * dv1_dv0 self + dphi2_dphi1 self * dphi1_dv0 self"

text \<open>Eq. 63--65\<close>

definition def_dv2 :: "PatchedConic \<Rightarrow> fl" where
  "def_dv2 self =
     Fin 2 * Q2 self * (Q2 self - Fin 1) * cphi2 self ^ 2 / (ef self * v2 self)"

definition def_dphi2 :: "PatchedConic \<Rightarrow> fl" where
  "def_dphi2 self = - Q2 self * (Q2 self - Fin 2) * cphi2 self * sphi2 self / ef self"

definition def_dv0 :: "PatchedConic \<Rightarrow> fl" where
  "def_dv0 self = def_dv2 self * dv2_dv0 self + def_dphi2 self * dphi2_dv0 self"

definition daf_dv0 :: "PatchedConic \<Rightarrow> fl" where
  "daf_dv0 self = (Fin 2 * af self ^ 2 * v2 self * dv2_dv0 self) / Fin mu_moon"

definition drpl_daf :: "PatchedConic \<Rightarrow> fl" where
  "drpl_daf self = Fin 1 - ef self"

definition drpl_def :: "PatchedConic \<Rightarrow> fl" where
  "drpl_def self = af self"

definition drpl_dv0 :: "PatchedConic \<Rightarrow> fl" where
  "drpl_dv0 self = drpl_daf self * daf_dv0 self - drpl_def self * def_dv0 self"

text \<open>Optimization state, and the further shorthands of the method (its locals \<open>mu\<close> and
  \<open>h\<close> are \<open>mu (depart self)\<close> and \<open>h (arrive self)\<close>, \<open>mu_moon\<close> and \<open>D\<close> the constants).\<close>

definition x :: "PatchedConic \<Rightarrow> fl list" where
  "x self = [val (lam1 self), v0 self]"

definition r0 :: "PatchedConic \<Rightarrow> fl" where [shorthand]:
  "r0 self = val (OrbitState.r (depart self))"

definition r1 :: "PatchedConic \<Rightarrow> fl" where [shorthand]:
  "r1 self = val (OrbitState.r (arrive self))"

definition r2 :: "PatchedConic \<Rightarrow> fl" where [shorthand]:
  "r2 self = r self"

definition slam1 :: "PatchedConic \<Rightarrow> fl" where [shorthand]:
  "slam1 self = np_sin (val (lam1 self))"

definition clam1 :: "PatchedConic \<Rightarrow> fl" where [shorthand]:
  "clam1 self = np_cos (val (lam1 self))"

definition deltav1 :: "PatchedConic \<Rightarrow> fl" where
  "deltav1 self = \<bar>v0 self - np_sqrt (val (mu (depart self)) / r0 self)\<bar>"

definition deltav2 :: "PatchedConic \<Rightarrow> fl" where
  "deltav2 self = vpl self - vf self"

text \<open>Eq. 66--68\<close>

definition dv1_dlam1 :: "PatchedConic \<Rightarrow> fl" where
  "dv1_dlam1 self =
     - val (mu (depart self)) * Fin D * r2 self * slam1 self / (v1 self * r1 self ^ 3)"

definition dphi1_dlam1 :: "PatchedConic \<Rightarrow> fl" where
  "dphi1_dlam1 self =
     val (h (arrive self)) * Fin D * r2 self * slam1 self / (v1 self * r1 self ^ 3 * sphi1 self)
     - val (h (arrive self)) * Fin D * r2 self * val (mu (depart self)) * slam1 self
         / (v1 self ^ 3 * r1 self ^ 4 * sphi1 self)"

definition dgam1_dlam1 :: "PatchedConic \<Rightarrow> fl" where
  "dgam1_dlam1 self =
     r2 self * clam1 self / (r1 self * cgam1 self)
     - Fin D * (r2 self * slam1 self) ^ 2 / (r1 self ^ 3 * cgam1 self)"

text \<open>Eq. 69, 71, 73 (of Eq. 73 only the part the program uses)\<close>

definition dv2_dlam1 :: "PatchedConic \<Rightarrow> fl" where
  "dv2_dlam1 self =
     ((v1 self - vM * cpmg1 self) * dv1_dlam1 self
      + (v1 self * vM * spmg1 self) * dphi1_dlam1 self
      - (v1 self * vM * spmg1 self) * dgam1_dlam1 self) / v2 self"

definition dphi2_dgam1 :: "PatchedConic \<Rightarrow> fl" where
  "dphi2_dgam1 self = (vM * v1 self * cpmg1 self - v1 self ^ 2) / v2 self ^ 2"

definition dphi2_dlam1 :: "PatchedConic \<Rightarrow> fl" where
  "dphi2_dlam1 self =
     dphi2_dphi1 self * dphi1_dlam1 self + dphi2_dgam1 self * dgam1_dlam1 self
     + dphi2_dv1 self * dv1_dlam1 self - Fin 1"

text \<open>Eq. 74--80\<close>

definition dQ2_dlam1 :: "PatchedConic \<Rightarrow> fl" where
  "dQ2_dlam1 self = Fin 2 * r2 self * v2 self * dv2_dlam1 self / Fin mu_moon"

definition daf_dQ2 :: "PatchedConic \<Rightarrow> fl" where
  "daf_dQ2 self = af self / (Fin 2 - Q2 self)"

definition def_dQ2 :: "PatchedConic \<Rightarrow> fl" where
  "def_dQ2 self = (Q2 self - Fin 1) * cphi2 self ^ 2 / ef self"

definition daf_dlam1 :: "PatchedConic \<Rightarrow> fl" where
  "daf_dlam1 self = daf_dQ2 self * dQ2_dlam1 self"

definition def_dlam1 :: "PatchedConic \<Rightarrow> fl" where
  "def_dlam1 self = def_dQ2 self * dQ2_dlam1 self + def_dphi2 self * dphi2_dlam1 self"

definition drpl_dlam1 :: "PatchedConic \<Rightarrow> fl" where
  "drpl_dlam1 self = (Fin 1 - ef self) * daf_dlam1 self - af self * def_dlam1 self"

definition dg_drpl :: "PatchedConic \<Rightarrow> fl" where
  "dg_drpl self = Fin (- 1)"

definition dg_dlam1 :: "PatchedConic \<Rightarrow> fl" where
  "dg_dlam1 self = dg_drpl self * drpl_dlam1 self"

text \<open>Eq. 88--90\<close>

definition dg_dv0 :: "PatchedConic \<Rightarrow> fl" where
  "dg_dv0 self = - drpl_dv0 self"

definition ddeltav2_dvpl :: "PatchedConic \<Rightarrow> fl" where
  "ddeltav2_dvpl self = Fin 1"

definition dvpl_daf :: "PatchedConic \<Rightarrow> fl" where
  "dvpl_daf self =
     Fin (5 / 10)
       * np_sqrt ((Fin mu_moon * (Fin 1 + ef self)) / (af self ^ 3 * (Fin 1 - ef self)))"

definition dvpl_def :: "PatchedConic \<Rightarrow> fl" where
  "dvpl_def self =
     - np_sqrt (Fin mu_moon / ((Fin 1 + ef self) * af self * (Fin 1 - ef self) ^ 3))"

definition ddeltav2_def :: "PatchedConic \<Rightarrow> fl" where
  "ddeltav2_def self = ddeltav2_dvpl self * dvpl_def self"

definition ddeltav2_daf :: "PatchedConic \<Rightarrow> fl" where
  "ddeltav2_daf self = ddeltav2_dvpl self * dvpl_daf self"

definition dvpl_dlam1 :: "PatchedConic \<Rightarrow> fl" where
  "dvpl_dlam1 self = dvpl_daf self * daf_dlam1 self + dvpl_def self * def_dlam1 self"

definition ddeltav2_dlam1 :: "PatchedConic \<Rightarrow> fl" where
  "ddeltav2_dlam1 self = ddeltav2_dvpl self * dvpl_dlam1 self"

definition df_dlam1 :: "PatchedConic \<Rightarrow> fl" where
  "df_dlam1 self = ddeltav2_dlam1 self"

definition ddeltav1_dv0 :: "PatchedConic \<Rightarrow> fl" where
  "ddeltav1_dv0 self = Fin 1"

definition dvpl_dv0 :: "PatchedConic \<Rightarrow> fl" where
  "dvpl_dv0 self = dvpl_def self * def_dv0 self + dvpl_daf self * daf_dv0 self"

definition ddeltav2_dv0 :: "PatchedConic \<Rightarrow> fl" where
  "ddeltav2_dv0 self = ddeltav2_dvpl self * dvpl_dv0 self"

definition df_dv0 :: "PatchedConic \<Rightarrow> fl" where
  "df_dv0 self = ddeltav1_dv0 self + ddeltav2_dv0 self"

text \<open>Cost, constraint and their gradients.  A \<open>2 \<times> 1\<close> array
  \<open>np.array([[c, d]]).T\<close> is \<open>Col2 c d\<close>; a \<open>1 \<times> 1\<close> array is its entry.\<close>

datatype col2 = Col2 fl fl

fun row0 :: "col2 \<Rightarrow> fl" where
  "row0 (Col2 c d) = c"

fun row1 :: "col2 \<Rightarrow> fl" where
  "row1 (Col2 c d) = d"

text \<open>\<open>m.T.dot(n)\<close> of two columns, \<open>m.dot(s)\<close> of a column and a scalar, \<open>m + n\<close>.\<close>

fun T_dot :: "col2 \<Rightarrow> col2 \<Rightarrow> fl" where
  "T_dot (Col2 c d) (Col2 c' d') = c * c' + d * d'"

fun dot_scalar :: "col2 \<Rightarrow> fl \<Rightarrow> col2" where
  "dot_scalar (Col2 c d) s = Col2 (c * s) (d * s)"

fun col2_add :: "col2 \<Rightarrow> col2 \<Rightarrow> col2" where
  "col2_add (Col2 c d) (Col2 c' d') = Col2 (c + c') (d + d')"

definition f :: "PatchedConic \<Rightarrow> fl" where
  "f self = deltav1 self + deltav2 self"

definition df_dx :: "PatchedConic \<Rightarrow> col2" where
  "df_dx self = Col2 (df_dlam1 self) (df_dv0 self)"

definition dg_dx :: "PatchedConic \<Rightarrow> col2" where
  "dg_dx self = Col2 (dg_dlam1 self) (dg_dv0 self)"

definition g :: "PatchedConic \<Rightarrow> fl" where
  "g self = val (rf self) - rpl self"

text \<open>SGRA computations\<close>

definition lam :: "PatchedConic \<Rightarrow> fl" where
  "lam self =
     (let dgdx = dg_dx self;
          dfdx = df_dx self;
          P = Fin 1 / T_dot dgdx dgdx
      in - (P * T_dot dgdx dfdx))"

definition P :: "PatchedConic \<Rightarrow> fl" where
  "P self = g self ^ 2"

definition dF_dx :: "PatchedConic \<Rightarrow> col2" where
  "dF_dx self = col2_add (df_dx self) (dot_scalar (dg_dx self) (lam self))"

definition F :: "PatchedConic \<Rightarrow> fl" where
  "F self = f self + g self * lam self"

definition Q_opt :: "PatchedConic \<Rightarrow> fl" where
  "Q_opt self = (let Fx = dF_dx self in T_dot Fx Fx)"

text \<open>
  The operations of \<open>compute_gradients\<close> on two Python floats that can raise, in program
  order: \<open>v0 / v1\<close>, \<open>v1 / v0\<close>, \<open>mu / r0\<close> of the departure orbit, and the powers
  \<open>r1**3\<close>, \<open>v1**3\<close> and \<open>r1**4\<close> (\<open>v1**2\<close> has been computed by \<open>__init__\<close> before).
  Every other quotient of the method has a numpy operand.  The result is the exception
  raised, if any; otherwise the attributes are as defined above.
\<close>

definition compute_gradients :: "PatchedConic \<Rightarrow> error option" where
  "compute_gradients self =
     first_raise
       [(div_raises (OrbitState.v (depart self)) (OrbitState.v (arrive self)), ZeroDivisionError),
        (div_raises (OrbitState.v (arrive self)) (OrbitState.v (depart self)), ZeroDivisionError),
        (div_raises (mu (depart self)) (OrbitState.r (depart self)), ZeroDivisionError),
        (pow_raises (OrbitState.r (arrive self)) 3, OverflowError),
        (pow_raises (OrbitState.v (arrive self)) 3, OverflowError),
        (pow_raises (OrbitState.r (arrive self)) 4, OverflowError)]"

subsection \<open>The constructor\<close>

text \<open>
  \<open>PatchedConic(depart, arrive, lam1, rf)\<close>: the guard on the arrival orbit's semimajor
  axis raises the \<open>ValueError\<close> (nothing before it can raise), then come the arithmetic
  of \<open>__init__\<close> and the call of \<open>compute_gradients\<close>.
\<close>

definition PatchedConic_init ::
  "OrbitState \<Rightarrow> OrbitState \<Rightarrow> num \<Rightarrow> num \<Rightarrow> error + PatchedConic" where
  "PatchedConic_init depart' arrive' lam1' rf' =
     (if val (a arrive') \<le> Fin 0 then Inl (ValueError ''expected elliptical trajectory'')
      else case init_raises depart' arrive' lam1' rf' of
             Some err \<Rightarrow> Inl err
           | None \<Rightarrow>
               (let self = init_attributes depart' arrive' lam1' rf'
                in case compute_gradients self of
                     Some err \<Rightarrow> Inl err
                   | None \<Rightarrow> Inr self))"

section \<open>The trajectory factory\<close>

text \<open>
  \<open>init_patched_conic(solution_x, dx)\<close>.  Its first argument is a \<open>PatchedConic\<close> or the
  tuple of its five defining numbers.  When the intercept speed is nan the program
  enters the debugger (\<open>pdb.set_trace()\<close>, an interaction outside the model) and then
  raises the \<open>ValueError\<close>.  The entries of \<open>dx\<close> are numpy floats, so the perturbed speed
  and phase angle are too, and so is the intercept radius.
\<close>

datatype solution = Obj PatchedConic | Tup num num num num num

fun solution_tuple :: "solution \<Rightarrow> num \<times> num \<times> num \<times> num \<times> num" where
  "solution_tuple (Obj s) =
     (OrbitState.r (depart s), OrbitState.v (depart s), OrbitState.phi (depart s),
      lam1 s, rf s)"
| "solution_tuple (Tup c0 c1 c2 c3 c4) = (c0, c1, c2, c3, c4)"

definition init_patched_conic ::
  "orbit_ctor \<Rightarrow> orbit_at \<Rightarrow> solution \<Rightarrow> col2 \<Rightarrow> error + PatchedConic" where
  "init_patched_conic Orbit at' solution_x dx =
    (case solution_tuple solution_x of (s0, s1, s2, s3, s4) \<Rightarrow>
      (let r0 = s0;
           v0 = Np (val s1 + row1 dx);
           phi0 = s2;
           lam1 = Np (val s3 + row0 dx);
           rf = s4;
           r1 = Np (np_sqrt (Fin D ^ 2 + Fin r_soi ^ 2
                       - Fin 2 * Fin D * Fin r_soi * np_cos (val lam1)));
           depart = Orbit (Py (Fin mu_earth)) r0 v0 phi0;
           intercept = at' depart r1
       in if np_isnan (val (OrbitState.v intercept))
          then Inl (ValueError ''expected radius is not reached'')
          else PatchedConic_init depart intercept lam1 rf))"

section \<open>The restoration optimizer\<close>

record SGRA =
  gtol :: fl
  ftol :: fl
  Qtol :: fl
  alphatol :: fl
  beta0 :: fl

text \<open>\<open>SGRA.__init__\<close> with its default arguments.\<close>

definition SGRA_init :: SGRA where
  "SGRA_init = \<lparr> gtol = Fin (5 / 10 ^ 8), ftol = Fin (1 / 10 ^ 15), Qtol = Fin (2 / 10 ^ 15),
                  alphatol = Fin (1 / 10 ^ 6), beta0 = Fin 1 \<rparr>"

text \<open>
  \<open>optimize_v0\<close> is a generator.  A run of it is the sequence of what its loop passes do,
  closed by the way the loop ends: a pass that calls the factory and rejects the trial
  (\<open>Retry\<close>), a pass that calls it and yields the accepted state (\<open>Yield\<close>), the
  \<open>break\<close> at the tolerance test (\<open>Converged\<close>, with the current state), the end of
  \<open>range(0, max_iterations)\<close> (\<open>Exhausted\<close>, with the current state), and a pass whose
  factory call raises something else than a \<open>ValueError\<close> (\<open>Raised\<close>, with the exception
  and the current state).  The first two ends are the ordinary end of the generator.
  The function has no \<open>raise\<close> of its own; it catches the \<open>ValueError\<close> of the factory,
  and no other exception.  The budget is a count, a \<open>nat\<close> (a negative \<open>max_iterations\<close>
  gives the empty range, like 0).  The flag \<open>verbose\<close> only prints.  The outer optimizer
  \<open>optimize_deltav\<close> with its helper \<open>Psi\<close> (it reads names that are never bound, and so
  cannot run) and \<open>plot\<close> are left out.
\<close>

datatype run =
    Converged PatchedConic
  | Exhausted PatchedConic
  | Raised error PatchedConic
  | Retry run
  | Yield PatchedConic run

fun optimize_v0_loop ::
  "orbit_ctor \<Rightarrow> orbit_at \<Rightarrow> SGRA \<Rightarrow> nat \<Rightarrow> fl \<Rightarrow> PatchedConic \<Rightarrow> run" where
  "optimize_v0_loop Orbit at' self 0 beta solution_x = Exhausted solution_x"
| "optimize_v0_loop Orbit at' self (Suc n) beta solution_x =
     (if \<bar>g solution_x\<bar> \<le> gtol self then Converged solution_x
      else
        (let dv0 = - beta * (g solution_x / dg_dv0 solution_x)
         in case init_patched_conic Orbit at' (Obj solution_x) (Col2 (Fin 0) dv0) of
              Inl (ValueError msg) \<Rightarrow>
                Retry (optimize_v0_loop Orbit at' self n (beta * Fin (5 / 10)) solution_x)
            | Inl ZeroDivisionError \<Rightarrow> Raised ZeroDivisionError solution_x
            | Inl OverflowError \<Rightarrow> Raised OverflowError solution_x
            | Inr solution_xt \<Rightarrow>
                if \<bar>g solution_xt\<bar> < \<bar>g solution_x\<bar>
                then Yield solution_xt (optimize_v0_loop Orbit at' self n (beta0 self) solution_xt)
                else Retry (optimize_v0_loop Orbit at' self n (beta * Fin (5 / 10)) solution_x)))"

definition optimize_v0 ::
  "orbit_ctor \<Rightarrow> orbit_at \<Rightarrow> SGRA \<Rightarrow> PatchedConic \<Rightarrow> nat \<Rightarrow> run" where
  "optimize_v0 Orbit at' self solution_x max_iterations =
     optimize_v0_loop Orbit at' self max_iterations (beta0 self) solution_x"

text \<open>What a consumer of the generator sees, and what the run costs.\<close>

fun yielded :: "run \<Rightarrow> PatchedConic list" where
  "yielded (Converged s) = []"
| "yielded (Exhausted s) = []"
| "yielded (Raised err s) = []"
| "yielded (Retry rest) = yielded rest"
| "yielded (Yield s rest) = s # yielded rest"

fun factory_calls :: "run \<Rightarrow> nat" where
  "factory_calls (Converged s) = 0"
| "factory_calls (Exhausted s) = 0"
| "factory_calls (Raised err s) = Suc 0"
| "factory_calls (Retry rest) = Suc (factory_calls rest)"
| "factory_calls (Yield s rest) = Suc (factory_calls rest)"

fun final :: "run \<Rightarrow> PatchedConic" where
  "final (Converged s) = s"
| "final (Exhausted s) = s"
| "final (Raised err s) = s"
| "final (Retry rest) = final rest"
| "final (Yield s rest) = final rest"

fun exhausted :: "run \<Rightarrow> bool" where
  "exhausted (Converged s) = False"
| "exhausted (Exhausted s) = True"
| "exhausted (Raised err s) = False"
| "exhausted (Retry rest) = exhausted rest"
| "exhausted (Yield s rest) = exhausted rest"

fun raised :: "run \<Rightarrow> error option" where
  "raised (Converged s) = None"
| "raised (Exhausted s) = None"
| "raised (Raised err s) = Some err"
| "raised (Retry rest) = raised rest"
| "raised (Yield s rest) = raised rest"

section \<open>Test doubles and test states\<close>

text \<open>
  Modelled from the spec: the class \<open>Orbit\<close> of module \<open>orbit\<close>, which the source file
  imports and which is not under the sources.  The spec says of it that it is built from
  \<open>(mu, r, v, phi)\<close>, that its elements are consistent with the two-body vis-viva
  relation for the given \<open>mu\<close>, and that \<open>at\<close> gives the state at another radius of the
  same conic, with a non-finite result where that radius is not reached.  The other
  elements below are the usual two-body relations (angular momentum \<open>r v cos phi\<close>),
  computed with numpy, so that they are numpy floats; what is given is kept as it is.
  The theorems about the factory and the optimizer hold for every constructor and every
  \<open>at\<close>; this one serves as a concrete instance.
\<close>

definition Orbit_vv :: orbit_ctor where
  "Orbit_vv mu' r' v' phi' =
     (let a' = Fin 1 / (Fin 2 / val r' - val v' ^ 2 / val mu');
          h' = val r' * val v' * np_cos (val phi');
          e' = np_sqrt (Fin 1 - h' ^ 2 / (val mu' * a'))
      in \<lparr> mu = mu', OrbitState.r = r', OrbitState.v = v', OrbitState.phi = phi',
           e = Np e', a = Np a',
           cos_E = Np ((Fin 1 - val r' / a') / e'),
           cos_nu = Np ((h' ^ 2 / (val mu' * val r') - Fin 1) / e'),
           h = Np h' \<rparr>)"

definition at_vv :: orbit_at where
  "at_vv orbit r' =
     (let v' = np_sqrt (val (mu orbit) * (Fin 2 / val r' - Fin 1 / val (a orbit)));
          phi' = np_arccos (val (h orbit) / (val r' * v'))
      in \<lparr> mu = mu orbit, OrbitState.r = r', OrbitState.v = Np v', OrbitState.phi = Np phi',
           e = e orbit, a = a orbit,
           cos_E = Np ((Fin 1 - val r' / val (a orbit)) / val (e orbit)),
           cos_nu = Np ((val (h orbit) ^ 2 / (val (mu orbit) * val r') - Fin 1) / val (e orbit)),
           h = h orbit \<rparr>)"

text \<open>Orbit states given attribute by attribute (Python floats), as the constructor of
  \<open>PatchedConic\<close> receives them: a departure, an arrival at the moon's speed less 300 m/s along the
  local horizontal, and an arrival at the moon's speed climbing at 60 degrees.\<close>

definition test_depart :: OrbitState where
  "test_depart =
     \<lparr> mu = Py (Fin mu_earth), OrbitState.r = Py (Fin 6556400), OrbitState.v = Py (Fin V),
       OrbitState.phi = Py (Fin 0), e = Py (Fin (97 / 100)), a = Py (Fin 200000000),
       cos_E = Py (Fin 1), cos_nu = Py (Fin 1), h = Py (Fin (6556400 * V)) \<rparr>"

definition test_arrive_slow :: OrbitState where
  "test_arrive_slow =
     \<lparr> mu = Py (Fin mu_earth), OrbitState.r = Py (Fin 320000000), OrbitState.v = Py (Fin (V - 300)),
       OrbitState.phi = Py (Fin 0), e = Py (Fin (97 / 100)), a = Py (Fin 200000000),
       cos_E = Py (Fin 0), cos_nu = Py (Fin 0), h = Py (Fin (320000000 * (V - 300))) \<rparr>"

definition test_arrive_60 :: OrbitState where
  "test_arrive_60 =
     \<lparr> mu = Py (Fin mu_earth), OrbitState.r = Py (Fin 320000000), OrbitState.v = Py (Fin V),
       OrbitState.phi = Py (Fin (pi / 3)), e = Py (Fin (97 / 100)), a = Py (Fin 200000000),
       cos_E = Py (Fin 0), cos_nu = Py (Fin 0), h = Py (Fin (160000000 * V)) \<rparr>"


text \<open>The patched conics built from them with \<open>lam1 = 0\<close>, for a final radius \<open>c\<close> (a Python float).\<close>

definition slow_conic :: "real \<Rightarrow> PatchedConic" where
  "slow_conic c = init_attributes test_depart test_arrive_slow (Py (Fin 0)) (Py (Fin c))"

definition steep_conic :: "real \<Rightarrow> PatchedConic" where
  "steep_conic c = init_attributes test_depart test_arrive_60 (Py (Fin 0)) (Py (Fin c))"

text \<open>The energy ratios of the two at the sphere of influence.\<close>

definition Q_slow :: real where
  "Q_slow = r_soi * 90000 / mu_moon"

definition Q_steep :: real where
  "Q_steep = r_soi * V ^ 2 / mu_moon"

text \<open>Eccentricity and semimajor axis of the lunar hyperbola of the steep test state.\<close>

definition ef_steep :: real where
  "ef_steep = sqrt (1 + Q_steep * (Q_steep - 2) / 4)"

definition af_steep :: real where
  "af_steep = r_soi / (2 - Q_steep)"

text \<open>Two test doubles for \<open>at\<close>: one for which no radius is reached (the speed is nan),
  and one that always arrives in the slow test state.\<close>

definition at_unreachable :: orbit_at where
  "at_unreachable orbit r' = orbit\<lparr>OrbitState.r := r', OrbitState.v := Np NaN\<rparr>"

definition at_slow :: orbit_at where
  "at_slow orbit r' = test_arrive_slow"

text \<open>
  Inputs of the factory for the orbit class above: the parking-orbit radius, a departure
  speed \<open>c\<close>, a horizontal departure, the arrival phase angle \<open>pi/2\<close> and the final
  radius of the program's own example; the semimajor axis that the vis-viva relation gives
  the departure orbit; the intercept radius for that phase angle; the departure and the
  intercept states; and a patched conic built by the constructor from the departure and
  an arrival on the inbound branch (flight-path angle \<open>-1\<close>).
\<close>

definition test_tuple :: "real \<Rightarrow> solution" where
  "test_tuple c =
     Tup (Py (Fin 6556400)) (Py (Fin c)) (Py (Fin 0)) (Py (Fin (pi / 2))) (Py (Fin 1937000))"

definition a_vv :: "real \<Rightarrow> real" where
  "a_vv c = 1 / (2 / 6556400 - c ^ 2 / mu_earth)"

definition r1_test :: real where
  "r1_test = sqrt (D ^ 2 + r_soi ^ 2)"

definition test_depart_vv :: "real \<Rightarrow> OrbitState" where
  "test_depart_vv c =
     Orbit_vv (Py (Fin mu_earth)) (Py (Fin 6556400)) (Np (Fin c)) (Py (Fin 0))"

definition test_arrive_vv :: "real \<Rightarrow> OrbitState" where
  "test_arrive_vv c = at_vv (test_depart_vv c) (Np (Fin r1_test))"

definition inbound_conic :: PatchedConic where
  "inbound_conic =
     init_attributes (test_depart_vv 11000)
       ((test_arrive_vv 11000)\<lparr>OrbitState.phi := Np (Fin (- 1))\<rparr>)
       (Np (Fin (pi / 2))) (Py (Fin 1937000))"

text \<open>A test double for \<open>at\<close> that returns an infinite speed.\<close>

definition at_infinite :: orbit_at where
  "at_infinite orbit r' = orbit\<lparr>OrbitState.r := r', OrbitState.v := Np PInf\<rparr>"

text \<open>A test double for \<open>at\<close> whose state has a semimajor axis of \<open>10\<^sup>2\<^sup>0\<^sup>0\<close> m, a Python
  float whose cube is beyond the largest double.\<close>

definition at_overflow :: orbit_at where
  "at_overflow orbit r' = test_arrive_slow\<lparr>a := Py (Fin (10 ^ 200))\<rparr>"

text \<open>The patched conic of the departure at 11 km/s and its own intercept state, and the
  input tuple of that departure with a final radius of zero.\<close>

definition outbound_conic :: PatchedConic where
  "outbound_conic =
     init_attributes (test_depart_vv 11000) (test_arrive_vv 11000)
       (Np (Fin (pi / 2))) (Py (Fin 1937000))"

definition test_tuple_rf0 :: solution where
  "test_tuple_rf0 =
     Tup (Py (Fin 6556400)) (Py (Fin 11000)) (Py (Fin 0)) (Py (Fin (pi / 2))) (Py (Fin 0))"

section \<open>Arithmetic of the numbers\<close>

lemma fl_mult_one [simp]: "(y::fl) * Fin 1 = y"
  by (cases y) auto

lemma fl_add_zero [simp]: "(y::fl) + Fin 0 = y"
  by (cases y) auto

lemma fl_power2: "(y::fl) ^ 2 = y * y"
  by (simp add: numeral_2_eq_2 one_fl_def)

lemma fl_power3: "(y::fl) ^ 3 = y * (y * y)"
  by (simp add: numeral_3_eq_3 one_fl_def)

lemma fl_mult_commute: "(y::fl) * z = z * y"
  by (cases y; cases z) (auto simp: mult.commute)

lemma fl_inverse_divide: "inverse (y::fl) = Fin 1 / y"
  by (cases y) (auto simp: inverse_eq_divide)

lemma fl_pos_not_le: "Fin 0 < y \<Longrightarrow> \<not> y \<le> Fin 0"
  by (cases y) auto

lemma fl_abs_diff: "(y::fl) \<le> z \<Longrightarrow> \<bar>z - y\<bar> = z - y"
  by (cases y; cases z) (auto simp: minus_fl_def)

lemma np_clip_Fin:
  "np_clip (Fin c) (Fin (- 1)) (Fin 1) = Fin (if c < - 1 then - 1 else if 1 < c then 1 else c)"
  by (simp add: np_clip_def np_maximum_def np_minimum_def)

lemma fl_nan_ops [simp]:
  "NaN - (y::fl) = NaN" "y - NaN = NaN" "y * NaN = NaN" "y + NaN = NaN"
  by (cases y; simp add: minus_fl_def)+


subsection \<open>The constants\<close>

lemma V_pos: "0 < V"
  by (simp add: V_def OMEGA_def D_def)

lemma mu_moon_pos: "0 < mu_moon"
  by (simp add: mu_moon_def)

lemma r_soi_pos: "0 < r_soi"
  by (simp add: r_soi_def D_def mu_moon_def mu_earth_def)

lemma r_soi_pow5: "(r_soi / D) ^ 5 = (mu_moon / mu_earth) ^ 2"
proof -
  have pos: "0 < mu_moon / mu_earth"
    by (simp add: mu_moon_def mu_earth_def)
  have "r_soi / D = (mu_moon / mu_earth) powr (4 / 10)"
    by (simp add: r_soi_def D_def)
  then have "(r_soi / D) ^ 5 = ((mu_moon / mu_earth) powr (4 / 10)) powr (real 5)"
    using pos by (simp add: powr_realpow)
  also have "\<dots> = (mu_moon / mu_earth) powr 2"
    by (simp add: powr_powr)
  also have "\<dots> = (mu_moon / mu_earth) ^ 2"
    using pos by (simp add: powr_numeral)
  finally show ?thesis .
qed

lemma r_soi_lower: "57660300 < r_soi"
proof -
  have "(15 / 100 :: real) ^ 5 < (r_soi / D) ^ 5"
    unfolding r_soi_pow5 by (simp add: mu_moon_def mu_earth_def power_divide)
  then have "15 / 100 < r_soi / D"
    by (rule power_less_imp_less_base) (use r_soi_pos in \<open>simp add: D_def\<close>)
  then show ?thesis
    by (simp add: D_def)
qed

lemma r_soi_upper: "r_soi < 107632560"
proof -
  have "(r_soi / D) ^ 5 < (28 / 100 :: real) ^ 5"
    unfolding r_soi_pow5 by (simp add: mu_moon_def mu_earth_def power_divide)
  then have "r_soi / D < 28 / 100"
    by (rule power_less_imp_less_base) simp
  then show ?thesis
    by (simp add: D_def)
qed

section \<open>Properties of the constructor\<close>

lemma DBL_MAX_large: "10 ^ 100 \<le> DBL_MAX"
  by (simp add: DBL_MAX_def)

lemma pow_raises_small: "\<bar>c ^ n\<bar> \<le> 10 ^ 100 \<Longrightarrow> \<not> pow_raises (Py (Fin c)) n"
  using DBL_MAX_large by simp

lemma init_Inr:
  assumes "PatchedConic_init d ar l rf' = Inr pc"
  shows "pc = init_attributes d ar l rf'"
  using assms
  by (auto simp: PatchedConic_init_def Let_def split: if_splits option.splits)

lemma init_ok:
  assumes "\<not> val (a ar) \<le> Fin 0" and "init_raises d ar l rf' = None"
    and "compute_gradients (init_attributes d ar l rf') = None"
  shows "PatchedConic_init d ar l rf' = Inr (init_attributes d ar l rf')"
  using assms by (simp add: PatchedConic_init_def Let_def)

lemma attributes_fields:
  "depart (init_attributes d ar l rf') = d" "arrive (init_attributes d ar l rf') = ar"
  "lam1 (init_attributes d ar l rf') = l" "rf (init_attributes d ar l rf') = rf'"
  by (simp_all add: init_attributes_def Let_def)

lemma attributes_closed_forms:
  "ef (init_attributes d ar l rf')
     = np_sqrt (Fin 1 + Q (init_attributes d ar l rf') * (Q (init_attributes d ar l rf') - Fin 2)
         * np_cos (phi (init_attributes d ar l rf')) ^ 2)"
  "af (init_attributes d ar l rf') = Fin r_soi / (Fin 2 - Q (init_attributes d ar l rf'))"
  "rpl (init_attributes d ar l rf')
     = af (init_attributes d ar l rf') * (Fin 1 - ef (init_attributes d ar l rf'))"
  "vpl (init_attributes d ar l rf')
     = np_sqrt (Fin mu_moon * (Fin 1 + ef (init_attributes d ar l rf'))
         / (af (init_attributes d ar l rf') * (Fin 1 - ef (init_attributes d ar l rf'))))"
  "vf (init_attributes d ar l rf') = np_sqrt (Fin mu_moon / val rf')"
  "r (init_attributes d ar l rf') = Fin r_soi"
  "Q (init_attributes d ar l rf')
     = Fin r_soi * v (init_attributes d ar l rf') ^ 2 / Fin mu_moon"
  by (simp_all add: init_attributes_def Let_def)

lemma init_fields:
  assumes "PatchedConic_init d ar l rf' = Inr pc"
  shows "depart pc = d" "arrive pc = ar" "lam1 pc = l" "rf pc = rf'"
  unfolding init_Inr [OF assms] by (rule attributes_fields)+

lemma closed_forms:
  assumes "PatchedConic_init d ar l rf' = Inr pc"
  shows "ef pc = np_sqrt (Fin 1 + Q pc * (Q pc - Fin 2) * np_cos (phi pc) ^ 2)"
    "af pc = Fin r_soi / (Fin 2 - Q pc)"
    "rpl pc = af pc * (Fin 1 - ef pc)"
    "vpl pc = np_sqrt (Fin mu_moon * (Fin 1 + ef pc) / (af pc * (Fin 1 - ef pc)))"
    "vf pc = np_sqrt (Fin mu_moon / val rf')"
    "r pc = Fin r_soi"
    "Q pc = Fin r_soi * v pc ^ 2 / Fin mu_moon"
  unfolding init_Inr [OF assms] by (rule attributes_closed_forms)+

lemma first_raise_kinds:
  "first_raise cs = Some err \<Longrightarrow> \<forall>c \<in> set cs. snd c = ZeroDivisionError \<or> snd c = OverflowError
     \<Longrightarrow> err = ZeroDivisionError \<or> err = OverflowError"
  by (induction cs rule: first_raise.induct) (auto split: if_splits)

lemma pow_raises_moderate:
  assumes "\<bar>c\<bar> \<le> 10 ^ 9" and "n \<le> 4"
  shows "\<not> pow_raises (Py (Fin c)) n"
proof (rule pow_raises_small)
  have "\<bar>c ^ n\<bar> = \<bar>c\<bar> ^ n"
    by (simp add: power_abs)
  also have "\<dots> \<le> (10 ^ 9) ^ n"
    using assms(1) by (simp add: power_mono)
  also have "\<dots> \<le> (10 ^ 9 :: real) ^ 4"
    using assms(2) by (intro power_increasing) simp_all
  also have "\<dots> \<le> 10 ^ 100"
    by simp
  finally show "\<bar>c ^ n\<bar> \<le> 10 ^ 100" .
qed

lemma init_raises_kinds:
  "init_raises d ar l rf' = Some err \<Longrightarrow> err = ZeroDivisionError \<or> err = OverflowError"
  unfolding init_raises_def by (erule first_raise_kinds) simp

lemma compute_gradients_kinds:
  "compute_gradients s = Some err \<Longrightarrow> err = ZeroDivisionError \<or> err = OverflowError"
  unfolding compute_gradients_def by (erule first_raise_kinds) simp

lemma init_not_ValueError:
  assumes "\<not> val (a ar) \<le> Fin 0"
  shows "PatchedConic_init d ar l rf' \<noteq> Inl (ValueError msg)"
  using assms init_raises_kinds [of d ar l rf'] compute_gradients_kinds [of "init_attributes d ar l rf'"]
  by (auto simp: PatchedConic_init_def Let_def split: option.splits)

subsection \<open>The slow test state\<close>

lemma Q_slow_bounds: "1 < Q_slow" "Q_slow < 2"
  using r_soi_lower r_soi_upper by (simp_all add: Q_slow_def mu_moon_def)

lemma sqrt_90000: "sqrt 90000 = (300::real)"
  by (rule real_sqrt_unique) simp_all

lemma V_value: "V = 1018280898 / 1000"
  by (simp add: V_def OMEGA_def D_def)

lemma slow_pow_ok:
  "\<not> pow_raises (Py (Fin 200000000)) 3" "\<not> pow_raises (Py (Fin (V - 300))) 2"
  "\<not> pow_raises (Py (Fin 320000000)) 3" "\<not> pow_raises (Py (Fin (V - 300))) 3"
  "\<not> pow_raises (Py (Fin 320000000)) 4"
  by (rule pow_raises_moderate, simp add: V_value, simp)+

lemma slow_init_raises:
  "c \<noteq> 0 \<Longrightarrow> init_raises d test_arrive_slow l (Py (Fin c)) = None"
  using slow_pow_ok
  by (simp add: init_raises_def test_arrive_slow_def div_raises_def mu_earth_def)

lemma slow_gradients:
  assumes "\<not> div_raises (OrbitState.v test_arrive_slow) (OrbitState.v d)"
    and "\<not> div_raises (mu d) (OrbitState.r d)"
  shows "compute_gradients (init_attributes d test_arrive_slow l rf') = None"
proof -
  have "\<not> div_raises (OrbitState.v d) (OrbitState.v test_arrive_slow)"
    by (simp add: div_raises_def test_arrive_slow_def V_value)
  moreover have "\<not> pow_raises (OrbitState.r test_arrive_slow) 3"
    "\<not> pow_raises (OrbitState.v test_arrive_slow) 3"
    "\<not> pow_raises (OrbitState.r test_arrive_slow) 4"
    using slow_pow_ok by (simp_all add: test_arrive_slow_def)
  ultimately show ?thesis
    using assms by (simp add: compute_gradients_def attributes_fields)
qed

lemma slow_init_any:
  assumes "c \<noteq> 0"
    and "\<not> div_raises (OrbitState.v test_arrive_slow) (OrbitState.v d)"
    and "\<not> div_raises (mu d) (OrbitState.r d)"
  shows "PatchedConic_init d test_arrive_slow l (Py (Fin c))
           = Inr (init_attributes d test_arrive_slow l (Py (Fin c)))"
proof (rule init_ok)
  show "\<not> val (a test_arrive_slow) \<le> Fin 0"
    by (simp add: test_arrive_slow_def)
  show "init_raises d test_arrive_slow l (Py (Fin c)) = None"
    using assms(1) by (rule slow_init_raises)
  show "compute_gradients (init_attributes d test_arrive_slow l (Py (Fin c))) = None"
    using assms(2,3) by (rule slow_gradients)
qed

lemma test_depart_nonzero:
  "\<not> div_raises (OrbitState.v test_arrive_slow) (OrbitState.v test_depart)"
  "\<not> div_raises (mu test_depart) (OrbitState.r test_depart)"
  by (simp_all add: test_depart_def div_raises_def V_value)

lemma slow_conic_init:
  "c \<noteq> 0 \<Longrightarrow>
   PatchedConic_init test_depart test_arrive_slow (Py (Fin 0)) (Py (Fin c)) = Inr (slow_conic c)"
  unfolding slow_conic_def by (rule slow_init_any) (simp_all add: test_depart_nonzero)

lemma slow_conic_init_default:
  "PatchedConic_init test_depart test_arrive_slow (Py (Fin 0)) (Py (Fin 1837000))
     = Inr (slow_conic 1837000)"
  by (rule slow_conic_init) simp

lemma slow_geometry:
  assumes "val l = Fin 0"
  shows "gam1 (init_attributes d test_arrive_slow l rf') = Fin 0"
    "v (init_attributes d test_arrive_slow l rf') = Fin 300"
    "phi (init_attributes d test_arrive_slow l rf') = Fin 0"
    "Q (init_attributes d test_arrive_slow l rf') = Fin Q_slow"
proof -
  have v2: "(V - 300)\<^sup>2 + V\<^sup>2 - 2 * (V - 300) * V = 90000"
    by (simp add: power2_eq_square algebra_simps)
  show "gam1 (init_attributes d test_arrive_slow l rf') = Fin 0"
    "v (init_attributes d test_arrive_slow l rf') = Fin 300"
    "phi (init_attributes d test_arrive_slow l rf') = Fin 0"
    "Q (init_attributes d test_arrive_slow l rf') = Fin Q_slow"
    using V_pos mu_moon_pos
    by (auto simp: init_attributes_def Let_def test_arrive_slow_def assms
        np_clip_Fin minus_fl_def fl_power2 sqrt_90000 v2 Q_slow_def power2_eq_square
        algebra_simps)
qed

lemma slow_ef:
  assumes "val l = Fin 0"
  shows "ef (init_attributes d test_arrive_slow l rf') = Fin (Q_slow - 1)"
proof -
  have sq: "1 + Q_slow * (Q_slow - 2) = (Q_slow - 1)\<^sup>2"
    by (simp add: power2_eq_square algebra_simps)
  then have "sqrt (1 + Q_slow * (Q_slow - 2)) = Q_slow - 1"
    using Q_slow_bounds by simp
  moreover have "0 \<le> 1 + Q_slow * (Q_slow - 2)"
    using sq by simp
  ultimately show ?thesis
    by (simp add: attributes_closed_forms(1) slow_geometry [OF assms] minus_fl_def fl_power2)
qed

lemma slow_af:
  assumes "val l = Fin 0"
  shows "af (init_attributes d test_arrive_slow l rf') = Fin (r_soi / (2 - Q_slow))"
  using Q_slow_bounds
  by (simp add: attributes_closed_forms(2) slow_geometry [OF assms] minus_fl_def)

lemma slow_rpl_any:
  assumes "val l = Fin 0"
  shows "rpl (init_attributes d test_arrive_slow l rf') = Fin r_soi"
  using Q_slow_bounds
  by (simp add: attributes_closed_forms(3) slow_ef [OF assms] slow_af [OF assms] minus_fl_def)


lemma slow_rpl: "rpl (slow_conic c) = Fin r_soi"
  unfolding slow_conic_def by (rule slow_rpl_any) simp


lemma slow_basic:
  "gam1 (slow_conic c) = Fin 0" "v (slow_conic c) = Fin 300"
  "phi (slow_conic c) = Fin 0" "Q (slow_conic c) = Fin Q_slow"
  "depart (slow_conic c) = test_depart" "arrive (slow_conic c) = test_arrive_slow"
  "lam1 (slow_conic c) = Py (Fin 0)" "rf (slow_conic c) = Py (Fin c)"
  by (simp_all add: slow_conic_def slow_geometry attributes_fields)

section \<open>Claims about the constructor\<close>

text \<open>
  C1.  For a patched conic constructed from a departure and an arrival state (the
  construction succeeds), the quantities of the lunar hyperbola are the closed forms of
  the conic relations:
  \<open>Q = r_soi v2\<^sup>2 / mu_moon\<close>, \<open>ef = sqrt (1 + Q (Q - 2) cos\<^sup>2 phi2)\<close>,
  \<open>af = r_soi / (2 - Q)\<close>, the perilune radius \<open>rpl = af (1 - ef)\<close> and the perilune speed
  \<open>vpl = sqrt (mu_moon (1 + ef) / (af (1 - ef)))\<close>.
\<close>

theorem lunar_hyperbola_closed_forms:
  assumes "PatchedConic_init d ar l rf' = Inr pc"
  shows "Q pc = Fin r_soi * v pc ^ 2 / Fin mu_moon
    \<and> ef pc = np_sqrt (Fin 1 + Q pc * (Q pc - Fin 2) * np_cos (phi pc) ^ 2)
    \<and> af pc = Fin r_soi / (Fin 2 - Q pc)
    \<and> rpl pc = af pc * (Fin 1 - ef pc)
    \<and> vpl pc = np_sqrt (Fin mu_moon * (Fin 1 + ef pc) / (af pc * (Fin 1 - ef pc)))"
  using closed_forms [OF assms] by simp

theorem lunar_hyperbola_witness:
  "Fin 0 < val (a test_arrive_slow)
   \<and> PatchedConic_init test_depart test_arrive_slow (Py (Fin 0)) (Py (Fin 1837000))
       = Inr (slow_conic 1837000)
   \<and> rpl (slow_conic 1837000)
       = af (slow_conic 1837000) * (Fin 1 - ef (slow_conic 1837000))
   \<and> rpl (slow_conic 1837000) = Fin r_soi"
proof (intro conjI)
  show "Fin 0 < val (a test_arrive_slow)"
    by (simp add: test_arrive_slow_def)
  show "PatchedConic_init test_depart test_arrive_slow (Py (Fin 0)) (Py (Fin 1837000))
       = Inr (slow_conic 1837000)"
    by (rule slow_conic_init_default)
  show "rpl (slow_conic 1837000)
       = af (slow_conic 1837000) * (Fin 1 - ef (slow_conic 1837000))"
    using lunar_hyperbola_closed_forms [OF slow_conic_init_default]
    by (elim conjE)
  show "rpl (slow_conic 1837000) = Fin r_soi"
    by (rule slow_rpl)
qed

text \<open>
  C7.  The construction fails with the precondition error exactly when the arrival
  orbit is not elliptical, that is when its semimajor axis satisfies \<open>a \<le> 0\<close>, and it
  raises no other \<open>ValueError\<close>.  For an arrival state with \<open>a > 0\<close> the time-of-flight
  computation proceeds: the construction then ends either with the patched conic whose
  attributes are the computed ones, or with the \<open>ZeroDivisionError\<close> or \<open>OverflowError\<close>
  of a division or a power of two Python floats; when no such operation raises, it
  returns the patched conic.
\<close>

theorem construction_fails_iff_not_elliptical:
  "(PatchedConic_init d ar l rf' = Inl (ValueError ''expected elliptical trajectory''))
     = (val (a ar) \<le> Fin 0)
   \<and> (\<exists>msg. PatchedConic_init d ar l rf' = Inl (ValueError msg)) = (val (a ar) \<le> Fin 0)
   \<and> (\<not> val (a ar) \<le> Fin 0 \<longrightarrow>
        PatchedConic_init d ar l rf'
          = (case init_raises d ar l rf' of
               Some err \<Rightarrow> Inl err
             | None \<Rightarrow> (case compute_gradients (init_attributes d ar l rf') of
                          Some err \<Rightarrow> Inl err
                        | None \<Rightarrow> Inr (init_attributes d ar l rf'))))
   \<and> (\<not> val (a ar) \<le> Fin 0 \<longrightarrow>
        PatchedConic_init d ar l rf' = Inr (init_attributes d ar l rf')
        \<or> PatchedConic_init d ar l rf' = Inl ZeroDivisionError
        \<or> PatchedConic_init d ar l rf' = Inl OverflowError)"
proof (intro conjI impI)
  show "(PatchedConic_init d ar l rf' = Inl (ValueError ''expected elliptical trajectory''))
     = (val (a ar) \<le> Fin 0)"
    using init_not_ValueError [of ar d l rf'] by (auto simp: PatchedConic_init_def)
  show "(\<exists>msg. PatchedConic_init d ar l rf' = Inl (ValueError msg)) = (val (a ar) \<le> Fin 0)"
    using init_not_ValueError [of ar d l rf'] by (auto simp: PatchedConic_init_def)
next
  assume pos: "\<not> val (a ar) \<le> Fin 0"
  then show "PatchedConic_init d ar l rf'
          = (case init_raises d ar l rf' of
               Some err \<Rightarrow> Inl err
             | None \<Rightarrow> (case compute_gradients (init_attributes d ar l rf') of
                          Some err \<Rightarrow> Inl err
                        | None \<Rightarrow> Inr (init_attributes d ar l rf')))"
    by (simp add: PatchedConic_init_def Let_def split: option.splits)
  with init_raises_kinds [of d ar l rf']
    compute_gradients_kinds [of "init_attributes d ar l rf'"]
  show "PatchedConic_init d ar l rf' = Inr (init_attributes d ar l rf')
        \<or> PatchedConic_init d ar l rf' = Inl ZeroDivisionError
        \<or> PatchedConic_init d ar l rf' = Inl OverflowError"
    by (auto split: option.splits)
qed

theorem construction_fails_iff_not_elliptical_witness:
  "\<not> val (a test_arrive_slow) \<le> Fin 0
   \<and> init_raises test_depart test_arrive_slow (Py (Fin 0)) (Py (Fin 1837000)) = None
   \<and> compute_gradients (slow_conic 1837000) = None
   \<and> PatchedConic_init test_depart test_arrive_slow (Py (Fin 0)) (Py (Fin 1837000))
       = Inr (slow_conic 1837000)
   \<and> init_raises test_depart test_arrive_slow (Py (Fin 0)) (Py (Fin 0)) = Some ZeroDivisionError
   \<and> PatchedConic_init test_depart test_arrive_slow (Py (Fin 0)) (Py (Fin 0))
       = Inl ZeroDivisionError"
proof -
  have pos: "\<not> val (a test_arrive_slow) \<le> Fin 0"
    by (simp add: test_arrive_slow_def)
  have r1: "init_raises test_depart test_arrive_slow (Py (Fin 0)) (Py (Fin 1837000)) = None"
    by (rule slow_init_raises) simp
  have r2: "compute_gradients (slow_conic 1837000) = None"
    unfolding slow_conic_def by (rule slow_gradients) (rule test_depart_nonzero)+
  have r3: "init_raises test_depart test_arrive_slow (Py (Fin 0)) (Py (Fin 0))
              = Some ZeroDivisionError"
    using slow_pow_ok
    by (simp add: init_raises_def test_arrive_slow_def div_raises_def mu_earth_def)
  note inst = construction_fails_iff_not_elliptical [of test_depart test_arrive_slow "Py (Fin 0)"]
  have "PatchedConic_init test_depart test_arrive_slow (Py (Fin 0)) (Py (Fin 1837000))
       = Inr (slow_conic 1837000)"
    using inst [of "Py (Fin 1837000)"] pos r1 r2 by (simp add: slow_conic_def)
  moreover have "PatchedConic_init test_depart test_arrive_slow (Py (Fin 0)) (Py (Fin 0))
       = Inl ZeroDivisionError"
    using inst [of "Py (Fin 0)"] pos r3 by simp
  ultimately show ?thesis
    using pos r1 r2 r3 by simp
qed

text \<open>
  C2.  The terminal outputs of the sensitivity computation are the stated closed forms:
  the multiplier estimate is \<open>lam = - (dg/dx \<cdot> dg/dx\<^sup>T)\<^sup>-\<^sup>1 (dg/dx \<cdot> df/dx\<^sup>T)\<close>, in scalar form for
  the single constraint, the augmented gradient is \<open>dF/dx = df/dx + lam dg/dx\<close>, the
  augmented objective is \<open>F = f + lam g\<close>, and the optimality residual is the squared norm
  of \<open>dF/dx\<close>.  This holds of every record, so of every constructed patched conic.
\<close>

theorem sgra_terminal_closed_forms:
  "lam self = - (inverse (dg_dlam1 self ^ 2 + dg_dv0 self ^ 2)
                  * (dg_dlam1 self * df_dlam1 self + dg_dv0 self * df_dv0 self))
   \<and> lam self = - (inverse (T_dot (dg_dx self) (dg_dx self)) * T_dot (dg_dx self) (df_dx self))
   \<and> dF_dx self = Col2 (df_dlam1 self + lam self * dg_dlam1 self)
                        (df_dv0 self + lam self * dg_dv0 self)
   \<and> F self = f self + lam self * g self
   \<and> Q_opt self = row0 (dF_dx self) ^ 2 + row1 (dF_dx self) ^ 2"
proof -
  have c1: "dg_dlam1 self * lam self = lam self * dg_dlam1 self"
    and c2: "dg_dv0 self * lam self = lam self * dg_dv0 self"
    and c3: "g self * lam self = lam self * g self"
    by (rule fl_mult_commute)+
  have "lam self = - (inverse (T_dot (dg_dx self) (dg_dx self)) * T_dot (dg_dx self) (df_dx self))"
    by (simp add: lam_def Let_def fl_inverse_divide)
  moreover have "T_dot (dg_dx self) (dg_dx self) = dg_dlam1 self ^ 2 + dg_dv0 self ^ 2"
    and "T_dot (dg_dx self) (df_dx self)
           = dg_dlam1 self * df_dlam1 self + dg_dv0 self * df_dv0 self"
    by (simp_all add: dg_dx_def df_dx_def fl_power2)
  moreover have "dF_dx self = Col2 (df_dlam1 self + lam self * dg_dlam1 self)
                        (df_dv0 self + lam self * dg_dv0 self)"
    by (simp add: dF_dx_def df_dx_def dg_dx_def c1 c2)
  moreover have "F self = f self + lam self * g self"
    by (simp add: F_def c3)
  moreover have "Q_opt self = row0 (dF_dx self) ^ 2 + row1 (dF_dx self) ^ 2"
    by (cases "dF_dx self") (simp add: Q_opt_def Let_def fl_power2)
  ultimately show ?thesis by simp
qed






section \<open>The steep test state\<close>

lemma steep_pow_ok:
  "\<not> pow_raises (Py (Fin V)) 2" "\<not> pow_raises (Py (Fin V)) 3"
  by (rule pow_raises_moderate, simp add: V_value, simp)+

lemma steep_conic_init:
  assumes "c \<noteq> 0"
  shows "PatchedConic_init test_depart test_arrive_60 (Py (Fin 0)) (Py (Fin c))
           = Inr (steep_conic c)"
  unfolding steep_conic_def
proof (rule init_ok)
  show "\<not> val (a test_arrive_60) \<le> Fin 0"
    by (simp add: test_arrive_60_def)
  show "init_raises test_depart test_arrive_60 (Py (Fin 0)) (Py (Fin c)) = None"
    using assms slow_pow_ok steep_pow_ok
    by (simp add: init_raises_def test_arrive_60_def div_raises_def mu_earth_def)
  show "compute_gradients (init_attributes test_depart test_arrive_60 (Py (Fin 0)) (Py (Fin c)))
          = None"
    using slow_pow_ok steep_pow_ok
    by (simp add: compute_gradients_def attributes_fields test_arrive_60_def test_depart_def
        div_raises_def V_value)
qed

lemma arctan_sqrt3: "arctan (- sqrt 3) = - (pi / 3)"
proof -
  have "arctan (sqrt 3) = pi / 3"
  proof (rule arctan_unique)
    show "- (pi / 2) < pi / 3" using pi_gt_zero by linarith
    show "pi / 3 < pi / 2" using pi_gt_zero by linarith
    show "tan (pi / 3) = sqrt 3" by (rule tan_60)
  qed
  then show ?thesis by (simp add: arctan_minus)
qed

lemma Q_steep_big: "4 < Q_steep"
proof -
  have "4 * mu_moon < 57660300 * V ^ 2"
    by (simp add: mu_moon_def V_def OMEGA_def D_def power2_eq_square)
  also have "\<dots> < r_soi * V ^ 2"
    using r_soi_lower V_pos by simp
  finally show ?thesis
    using mu_moon_pos by (simp add: Q_steep_def field_simps)
qed

lemma steep_geometry:
  "gam1 (steep_conic c) = Fin 0" "v (steep_conic c) = Fin V"
  "phi (steep_conic c) = Fin (- (pi / 3))" "Q (steep_conic c) = Fin Q_steep"
proof -
  have v2: "V\<^sup>2 + V\<^sup>2 - 2 * V * V * (1 / 2) = V\<^sup>2"
    by (simp add: power2_eq_square)
  have t: "- V * (sqrt 3 / 2) / (V - V * (1 / 2)) = - sqrt 3"
    using V_pos by (simp add: field_simps)
  show g1: "gam1 (steep_conic c) = Fin 0"
    by (simp add: steep_conic_def init_attributes_def Let_def test_arrive_60_def np_clip_Fin)
  have vv: "v (steep_conic c) = np_sqrt (Fin V ^ 2 + Fin V ^ 2
                  - Fin 2 * Fin V * Fin V * np_cos (Fin (pi / 3) - gam1 (steep_conic c)))"
    by (simp add: steep_conic_def init_attributes_def Let_def test_arrive_60_def)
  show v: "v (steep_conic c) = Fin V"
    using V_pos unfolding vv g1
    by (simp add: minus_fl_def fl_power2 cos_60 power2_eq_square [symmetric] v2)
  have pp: "phi (steep_conic c) = np_arctan (- Fin V * np_sin (Fin (pi / 3) - gam1 (steep_conic c))
                 / (Fin V - Fin V * np_cos (Fin (pi / 3) - gam1 (steep_conic c)))) - Fin 0"
    by (simp add: steep_conic_def init_attributes_def Let_def test_arrive_60_def)
  show "phi (steep_conic c) = Fin (- (pi / 3))"
    using V_pos unfolding pp g1
    by (simp add: minus_fl_def cos_60 sin_60 t arctan_sqrt3)
  have "Q (steep_conic c) = Fin r_soi * v (steep_conic c) ^ 2 / Fin mu_moon"
    unfolding steep_conic_def by (rule attributes_closed_forms)
  then show "Q (steep_conic c) = Fin Q_steep"
    using mu_moon_pos by (simp add: v fl_power2 Q_steep_def power2_eq_square)
qed

lemmas steep_closed = attributes_closed_forms
  [of test_depart test_arrive_60 "Py (Fin 0)" "Py (Fin c)", folded steep_conic_def] for c

lemmas steep_basic = steep_geometry
  attributes_fields [of test_depart test_arrive_60 "Py (Fin 0)" "Py (Fin c)", folded steep_conic_def]
  for c

lemma ef_steep_bounds: "1 < ef_steep" "ef_steep \<le> Q_steep / 2"
proof -
  have "1 < 1 + Q_steep * (Q_steep - 2) / 4"
    using Q_steep_big by simp
  then have "sqrt 1 < ef_steep"
    unfolding ef_steep_def by (rule real_sqrt_less_mono)
  then show "1 < ef_steep" by simp
  have "(Q_steep / 2)\<^sup>2 - (1 + Q_steep * (Q_steep - 2) / 4) = Q_steep / 2 - 1"
    by (simp add: power2_eq_square field_simps)
  then have "1 + Q_steep * (Q_steep - 2) / 4 \<le> (Q_steep / 2)\<^sup>2"
    using Q_steep_big by linarith
  then have "ef_steep \<le> sqrt ((Q_steep / 2)\<^sup>2)"
    unfolding ef_steep_def by (rule real_sqrt_le_mono)
  then show "ef_steep \<le> Q_steep / 2"
    using Q_steep_big by simp
qed

lemma af_steep_neg: "af_steep < 0"
  using Q_steep_big r_soi_pos by (simp add: af_steep_def divide_pos_neg)

lemma steep_ef: "ef (steep_conic c) = Fin ef_steep"
proof -
  have "0 \<le> 1 + Q_steep * (Q_steep - 2) / 4"
    using Q_steep_big by simp
  then show ?thesis
    by (simp add: steep_closed(1) steep_basic minus_fl_def fl_power2
        cos_60 ef_steep_def)
qed

lemma steep_af: "af (steep_conic c) = Fin af_steep"
  using Q_steep_big
  by (simp add: steep_closed(2) steep_basic minus_fl_def af_steep_def)

lemma steep_rpl: "rpl (steep_conic c) = Fin (af_steep * (1 - ef_steep))"
  by (simp add: steep_closed(3) steep_ef steep_af minus_fl_def)

lemma steep_rpl_bound: "af_steep * (1 - ef_steep) \<le> r_soi / 2"
proof -
  have "af_steep * (1 - ef_steep) = r_soi * ((ef_steep - 1) / (Q_steep - 2))"
    using Q_steep_big by (simp add: af_steep_def field_simps)
  also have "\<dots> \<le> r_soi * (1 / 2)"
  proof (rule mult_left_mono)
    show "(ef_steep - 1) / (Q_steep - 2) \<le> 1 / 2"
      using Q_steep_big ef_steep_bounds by (simp add: field_simps)
    show "0 \<le> r_soi" using r_soi_pos by simp
  qed
  finally show ?thesis by simp
qed

lemma steep_g: "g (steep_conic r_soi) = Fin (r_soi - af_steep * (1 - ef_steep))"
  by (simp add: g_def steep_basic steep_rpl minus_fl_def)

lemma steep_g_large: "28830150 \<le> r_soi - af_steep * (1 - ef_steep)"
  using steep_rpl_bound r_soi_lower by simp

lemma steep_shorthand:
  "v0 (steep_conic c) = Fin V" "v1 (steep_conic c) = Fin V" "v2 (steep_conic c) = Fin V"
  "Q2 (steep_conic c) = Fin Q_steep"
  "tphi1 (steep_conic c) = Fin (sqrt 3)"
  "cpmg1 (steep_conic c) = Fin (1 / 2)" "spmg1 (steep_conic c) = Fin (sqrt 3 / 2)"
  "cphi2 (steep_conic c) = Fin (1 / 2)" "sphi2 (steep_conic c) = Fin (- (sqrt 3 / 2))"
  by (simp_all add: shorthand steep_basic test_depart_def test_arrive_60_def np_tan_def
      cos_60 sin_60 minus_fl_def)

lemma steep_dv1_dv0: "dv1_dv0 (steep_conic c) = Fin 1"
  using V_pos by (simp add: dv1_dv0_def steep_shorthand)

lemma steep_dphi1_dv0: "dphi1_dv0 (steep_conic c) = Fin 0"
  using V_pos by (simp add: dphi1_dv0_def steep_shorthand minus_fl_def)

lemma steep_dv2_dv0: "dv2_dv0 (steep_conic c) = Fin (1 / 2)"
  using V_pos
  by (simp add: dv2_dv0_def steep_shorthand steep_dv1_dv0 steep_dphi1_dv0 minus_fl_def vM_def)

lemma steep_dphi2_dv0: "dphi2_dv0 (steep_conic c) = Fin (- (sqrt 3 / 2) / V)"
  using V_pos
  by (simp add: dphi2_dv0_def dphi2_dv1_def dphi2_dphi1_def steep_shorthand steep_dv1_dv0
      steep_dphi1_dv0 minus_fl_def vM_def fl_power2 power2_eq_square)

lemma steep_def_dv0:
  "def_dv0 (steep_conic c) = Fin (Q_steep * (4 - Q_steep) / (8 * ef_steep * V))"
proof -
  have nz: "ef_steep * V \<noteq> 0" "ef_steep \<noteq> 0"
    using ef_steep_bounds V_pos by simp_all
  have "def_dv2 (steep_conic c)
      = Fin (2 * Q_steep * (Q_steep - 1) * (1 / 2)\<^sup>2 / (ef_steep * V))"
    using nz by (simp add: def_dv2_def steep_shorthand steep_ef minus_fl_def fl_power2
        power2_eq_square)
  moreover have "def_dphi2 (steep_conic c)
      = Fin (- Q_steep * (Q_steep - 2) * (1 / 2) * (- (sqrt 3 / 2)) / ef_steep)"
    using nz by (simp add: def_dphi2_def steep_shorthand steep_ef minus_fl_def)
  moreover have "2 * Q_steep * (Q_steep - 1) * (1 / 2)\<^sup>2 / (ef_steep * V) * (1 / 2)
      + - Q_steep * (Q_steep - 2) * (1 / 2) * (- (sqrt 3 / 2)) / ef_steep * (- (sqrt 3 / 2) / V)
      = Q_steep * (4 - Q_steep) / (8 * ef_steep * V)"
  proof -
    have s3: "sqrt 3 * sqrt 3 = 3" by simp
    have "- Q_steep * (Q_steep - 2) * (1 / 2) * (- (sqrt 3 / 2)) / ef_steep * (- (sqrt 3 / 2) / V)
        = - (Q_steep * (Q_steep - 2) * (sqrt 3 * sqrt 3)) / (8 * ef_steep * V)"
      using nz V_pos by (simp add: field_simps)
    then show ?thesis
      using nz V_pos unfolding s3 by (simp add: field_simps power2_eq_square)
  qed
  ultimately show ?thesis
    by (simp add: def_dv0_def steep_dv2_dv0 steep_dphi2_dv0)
qed

lemma steep_daf_dv0: "daf_dv0 (steep_conic c) = Fin (af_steep\<^sup>2 * V / mu_moon)"
  using mu_moon_pos
  by (simp add: daf_dv0_def steep_shorthand steep_af steep_dv2_dv0 fl_power2 power2_eq_square)

lemma steep_dg_dv0:
  "dg_dv0 (steep_conic c)
     = Fin (- ((1 - ef_steep) * (af_steep\<^sup>2 * V / mu_moon)
              - af_steep * (Q_steep * (4 - Q_steep) / (8 * ef_steep * V))))"
  by (simp add: dg_dv0_def drpl_dv0_def drpl_daf_def drpl_def_def steep_ef steep_af
      steep_daf_dv0 steep_def_dv0 minus_fl_def)

lemma steep_dg_dv0_pos:
  "0 < - ((1 - ef_steep) * (af_steep\<^sup>2 * V / mu_moon)
              - af_steep * (Q_steep * (4 - Q_steep) / (8 * ef_steep * V)))"
proof -
  have "(1 - ef_steep) * (af_steep\<^sup>2 * V / mu_moon) < 0"
  proof (rule mult_neg_pos)
    show "1 - ef_steep < 0" using ef_steep_bounds by simp
    show "0 < af_steep\<^sup>2 * V / mu_moon"
      using af_steep_neg V_pos mu_moon_pos by simp
  qed
  moreover have "0 < af_steep * (Q_steep * (4 - Q_steep) / (8 * ef_steep * V))"
  proof (rule mult_neg_neg)
    show "af_steep < 0" by (rule af_steep_neg)
    have "Q_steep * (4 - Q_steep) < 0"
      using Q_steep_big by (simp add: mult_pos_neg)
    moreover have "0 < 8 * ef_steep * V"
      using ef_steep_bounds V_pos by simp
    ultimately show "Q_steep * (4 - Q_steep) / (8 * ef_steep * V) < 0"
      by (rule divide_neg_pos)
  qed
  ultimately show ?thesis by linarith
qed

section \<open>Properties of the factory\<close>

lemma factory_result:
  assumes "init_patched_conic Orbit' at' sol dx = Inr pc"
    and "solution_tuple sol = (sa, sb, sc, sd, se)"
  shows "depart pc = Orbit' (Py (Fin mu_earth)) sa (Np (val sb + row1 dx)) sc"
    and "arrive pc = at' (Orbit' (Py (Fin mu_earth)) sa (Np (val sb + row1 dx)) sc)
           (Np (np_sqrt (Fin D ^ 2 + Fin r_soi ^ 2
              - Fin 2 * Fin D * Fin r_soi * np_cos (val sd + row0 dx))))"
    and "lam1 pc = Np (val sd + row0 dx)"
    and "rf pc = se"
    and "\<not> np_isnan (val (OrbitState.v (arrive pc)))"
    and "PatchedConic_init (depart pc) (arrive pc) (lam1 pc) (rf pc) = Inr pc"
proof -
  let ?d = "Orbit' (Py (Fin mu_earth)) sa (Np (val sb + row1 dx)) sc"
  let ?i = "at' ?d (Np (np_sqrt (Fin D ^ 2 + Fin r_soi ^ 2
              - Fin 2 * Fin D * Fin r_soi * np_cos (val sd + row0 dx))))"
  from assms have nn: "\<not> np_isnan (val (OrbitState.v ?i))"
    and ini: "PatchedConic_init ?d ?i (Np (val sd + row0 dx)) se = Inr pc"
    by (auto simp: init_patched_conic_def Let_def split: if_splits)
  note fs = init_fields [OF ini]
  show "depart pc = ?d" "arrive pc = ?i" "lam1 pc = Np (val sd + row0 dx)" "rf pc = se"
    by (rule fs)+
  show "\<not> np_isnan (val (OrbitState.v (arrive pc)))"
    using nn by (simp add: fs)
  show "PatchedConic_init (depart pc) (arrive pc) (lam1 pc) (rf pc) = Inr pc"
    using ini by (simp add: fs)
qed

section \<open>Properties of the restoration optimizer\<close>

lemma factory_unreachable:
  "init_patched_conic Orbit' at_unreachable sol dx
     = Inl (ValueError ''expected radius is not reached'')"
  by (cases "solution_tuple sol")
     (simp add: init_patched_conic_def Let_def at_unreachable_def)

lemma steep_not_converged: "\<not> \<bar>g (steep_conic r_soi)\<bar> \<le> gtol SGRA_init"
  using steep_g_large by (simp add: steep_g SGRA_init_def)

lemma slow_g_zero: "g (slow_conic r_soi) = Fin 0"
  by (simp add: g_def slow_basic slow_rpl minus_fl_def)

lemma slow_converged: "\<bar>g (slow_conic r_soi)\<bar> \<le> gtol SGRA_init"
  by (simp add: slow_g_zero SGRA_init_def)

lemma loop_yield_bound:
  "length (yielded (optimize_v0_loop Orbit' at' sg n bt s)) \<le> n"
proof (induction n arbitrary: bt s)
  case 0
  show ?case by simp
next
  case (Suc n)
  show ?case
    using Suc.IH [of "bt * Fin (5 / 10)" s] Suc.IH [of "beta0 sg"]
    by (auto simp: Let_def le_SucI split: sum.splits error.splits)
qed

lemma loop_calls:
  "factory_calls (optimize_v0_loop Orbit' at' sg n bt s) \<le> n
   \<and> (exhausted (optimize_v0_loop Orbit' at' sg n bt s) \<longrightarrow>
        factory_calls (optimize_v0_loop Orbit' at' sg n bt s) = n
        \<and> raised (optimize_v0_loop Orbit' at' sg n bt s) = None)
   \<and> (\<not> exhausted (optimize_v0_loop Orbit' at' sg n bt s)
        \<and> raised (optimize_v0_loop Orbit' at' sg n bt s) = None \<longrightarrow>
        factory_calls (optimize_v0_loop Orbit' at' sg n bt s) < n
        \<and> \<bar>g (final (optimize_v0_loop Orbit' at' sg n bt s))\<bar> \<le> gtol sg)
   \<and> (\<forall>err. raised (optimize_v0_loop Orbit' at' sg n bt s) = Some err \<longrightarrow>
        (err = ZeroDivisionError \<or> err = OverflowError)
        \<and> \<not> \<bar>g (final (optimize_v0_loop Orbit' at' sg n bt s))\<bar> \<le> gtol sg)"
proof (induction n arbitrary: bt s)
  case 0
  show ?case by simp
next
  case (Suc n)
  show ?case
    using Suc.IH [of "bt * Fin (5 / 10)" s] Suc.IH [of "beta0 sg"]
    by (auto simp: Let_def split: sum.splits error.splits)
qed

lemma overflow_raises:
  "init_patched_conic Orbit' at_overflow sol dx = Inl OverflowError"
proof -
  have big: "pow_raises (Py (Fin (10 ^ 200))) 3"
    by (simp add: DBL_MAX_def)
  have "PatchedConic_init d (test_arrive_slow\<lparr>a := Py (Fin (10 ^ 200))\<rparr>) l rf'
          = Inl OverflowError" for d l rf'
    using big by (simp add: PatchedConic_init_def init_raises_def)
  then show ?thesis
    by (cases "solution_tuple sol")
       (simp add: init_patched_conic_def Let_def at_overflow_def test_arrive_slow_def)
qed

text \<open>
  C5, as the claim states it, fails: when the budget runs out the generator simply ends,
  and nothing is reported.  The steep test state has a constraint value of more than
  28830 km and a finite positive constraint derivative.  With a budget of 0 the run ends
  at once, whatever the orbit class does; with a budget of 1 and an unreachable radius
  the one trial is rejected and the run ends.  Both leave the constraint unmet, and
  both are ordinary ends of the generator.
\<close>

theorem budget_exhausted_silently_counterexample:
  "Fin 28830150 \<le> g (steep_conic r_soi) \<and> g (steep_conic r_soi) < PInf
   \<and> Fin 0 < dg_dv0 (steep_conic r_soi) \<and> dg_dv0 (steep_conic r_soi) < PInf
   \<and> \<not> \<bar>g (steep_conic r_soi)\<bar> \<le> gtol SGRA_init
   \<and> optimize_v0 Orbit_vv at_vv SGRA_init (steep_conic r_soi) 0
       = Exhausted (steep_conic r_soi)
   \<and> optimize_v0 Orbit_vv at_unreachable SGRA_init (steep_conic r_soi) 1
       = Retry (Exhausted (steep_conic r_soi))"
proof -
  have "optimize_v0 Orbit_vv at_unreachable SGRA_init (steep_conic r_soi) 1
       = Retry (Exhausted (steep_conic r_soi))"
    using steep_not_converged
    by (simp add: optimize_v0_def factory_unreachable)
  then show ?thesis
    using steep_g_large steep_dg_dv0_pos steep_not_converged
    by (simp add: steep_g steep_dg_dv0 optimize_v0_def)
qed

text \<open>
  C5, amended.  A run of \<open>optimize_v0\<close> makes at most \<open>max_iterations\<close> factory calls and
  has two ordinary ends of the generator: at the tolerance test, before the budget is
  used up, with \<open>|g| \<le> gtol\<close> for its last state; or with the budget used up, after
  exactly \<open>max_iterations\<close> calls, and then nothing is said about the constraint.  The
  function raises nothing of its own; the one other end is an exception of the factory
  that is not the \<open>ValueError\<close> it catches (the \<open>ZeroDivisionError\<close> or \<open>OverflowError\<close> of
  a Python-float operation of the constructor), which passes through.
\<close>

theorem restoration_ends_converged_or_exhausted:
  "factory_calls (optimize_v0 Orbit' at' sg s n) \<le> n
   \<and> (exhausted (optimize_v0 Orbit' at' sg s n) \<longrightarrow>
        factory_calls (optimize_v0 Orbit' at' sg s n) = n
        \<and> raised (optimize_v0 Orbit' at' sg s n) = None)
   \<and> (\<not> exhausted (optimize_v0 Orbit' at' sg s n)
        \<and> raised (optimize_v0 Orbit' at' sg s n) = None \<longrightarrow>
        factory_calls (optimize_v0 Orbit' at' sg s n) < n
        \<and> \<bar>g (final (optimize_v0 Orbit' at' sg s n))\<bar> \<le> gtol sg)
   \<and> (\<forall>err. raised (optimize_v0 Orbit' at' sg s n) = Some err \<longrightarrow>
        (err = ZeroDivisionError \<or> err = OverflowError)
        \<and> \<not> \<bar>g (final (optimize_v0 Orbit' at' sg s n))\<bar> \<le> gtol sg)"
  unfolding optimize_v0_def by (rule loop_calls)

theorem restoration_ends_witness:
  "exhausted (optimize_v0 Orbit_vv at_unreachable SGRA_init (steep_conic r_soi) 1)
   \<and> factory_calls (optimize_v0 Orbit_vv at_unreachable SGRA_init (steep_conic r_soi) 1) = 1
   \<and> \<not> exhausted (optimize_v0 Orbit_vv at_vv SGRA_init (slow_conic r_soi) 1)
   \<and> raised (optimize_v0 Orbit_vv at_vv SGRA_init (slow_conic r_soi) 1) = None
   \<and> factory_calls (optimize_v0 Orbit_vv at_vv SGRA_init (slow_conic r_soi) 1) < 1
   \<and> \<bar>g (final (optimize_v0 Orbit_vv at_vv SGRA_init (slow_conic r_soi) 1))\<bar>
        \<le> gtol SGRA_init
   \<and> raised (optimize_v0 Orbit_vv at_overflow SGRA_init (steep_conic r_soi) 1)
        = Some OverflowError
   \<and> \<not> \<bar>g (final (optimize_v0 Orbit_vv at_overflow SGRA_init (steep_conic r_soi) 1))\<bar>
        \<le> gtol SGRA_init"
proof -
  have e1: "exhausted (optimize_v0 Orbit_vv at_unreachable SGRA_init (steep_conic r_soi) 1)"
    using steep_not_converged by (simp add: optimize_v0_def factory_unreachable)
  have e2: "\<not> exhausted (optimize_v0 Orbit_vv at_vv SGRA_init (slow_conic r_soi) 1)"
    "raised (optimize_v0 Orbit_vv at_vv SGRA_init (slow_conic r_soi) 1) = None"
    using slow_converged by (simp_all add: optimize_v0_def)
  have e3: "raised (optimize_v0 Orbit_vv at_overflow SGRA_init (steep_conic r_soi) 1)
        = Some OverflowError"
    using steep_not_converged by (simp add: optimize_v0_def overflow_raises)
  show ?thesis
    using e1 e2 e3
      restoration_ends_converged_or_exhausted
        [of Orbit_vv at_unreachable SGRA_init "steep_conic r_soi" 1]
      restoration_ends_converged_or_exhausted
        [of Orbit_vv at_vv SGRA_init "slow_conic r_soi" 1]
      restoration_ends_converged_or_exhausted
        [of Orbit_vv at_overflow SGRA_init "steep_conic r_soi" 1]
    by blast
qed

text \<open>
  C10.  For an input state whose constraint magnitude is already at or below the
  tolerance, \<open>optimize_v0\<close> yields nothing and makes no factory call; and in every case
  it yields at most \<open>max_iterations\<close> states.
\<close>

theorem converged_input_yields_nothing:
  "(\<bar>g s\<bar> \<le> gtol sg \<longrightarrow>
      yielded (optimize_v0 Orbit' at' sg s n) = []
      \<and> factory_calls (optimize_v0 Orbit' at' sg s n) = 0)
   \<and> length (yielded (optimize_v0 Orbit' at' sg s n)) \<le> n"
proof -
  have "\<bar>g s\<bar> \<le> gtol sg \<Longrightarrow> yielded (optimize_v0 Orbit' at' sg s n) = []
      \<and> factory_calls (optimize_v0 Orbit' at' sg s n) = 0"
    by (cases n) (simp_all add: optimize_v0_def)
  moreover have "length (yielded (optimize_v0 Orbit' at' sg s n)) \<le> n"
    unfolding optimize_v0_def by (rule loop_yield_bound)
  ultimately show ?thesis by blast
qed

theorem converged_input_witness:
  "\<bar>g (slow_conic r_soi)\<bar> \<le> gtol SGRA_init
   \<and> yielded (optimize_v0 Orbit_vv at_vv SGRA_init (slow_conic r_soi) 100) = []
   \<and> factory_calls (optimize_v0 Orbit_vv at_vv SGRA_init (slow_conic r_soi) 100) = 0
   \<and> length (yielded (optimize_v0 Orbit_vv at_vv SGRA_init (slow_conic r_soi) 100)) \<le> 100"
  using slow_converged
    converged_input_yields_nothing [of "slow_conic r_soi" SGRA_init Orbit_vv at_vv 100]
  by blast

subsection \<open>The sequence of yielded states\<close>

lemma fl_halve: "(b / Fin (2 ^ j)) * Fin (5 / 10) = b / Fin (2 ^ Suc j)"
  by (cases b) auto

lemma fl_div_one: "(b::fl) / Fin (2 ^ 0) = b"
  by (cases b) auto

lemma factory_keeps_lam1_rf:
  assumes "init_patched_conic Orbit' at' (Obj s) (Col2 (Fin 0) dv) = Inr pc"
  shows "val (lam1 pc) = val (lam1 s)" "rf pc = rf s"
  using factory_result(3,4) [OF assms, of "OrbitState.r (depart s)" "OrbitState.v (depart s)"
      "OrbitState.phi (depart s)" "lam1 s" "rf s"]
  by simp_all

lemma loop_chain:
  assumes "\<exists>j. bt = beta0 sg / Fin (2 ^ j)"
    and "i < length (yielded (optimize_v0_loop Orbit' at' sg n bt s))"
  shows "\<bar>g (yielded (optimize_v0_loop Orbit' at' sg n bt s) ! i)\<bar>
           < \<bar>g ((s # yielded (optimize_v0_loop Orbit' at' sg n bt s)) ! i)\<bar>
    \<and> (\<exists>k. init_patched_conic Orbit' at'
              (Obj ((s # yielded (optimize_v0_loop Orbit' at' sg n bt s)) ! i))
              (Col2 (Fin 0)
                 (- (beta0 sg / Fin (2 ^ k))
                    * (g ((s # yielded (optimize_v0_loop Orbit' at' sg n bt s)) ! i)
                       / dg_dv0 ((s # yielded (optimize_v0_loop Orbit' at' sg n bt s)) ! i))))
            = Inr (yielded (optimize_v0_loop Orbit' at' sg n bt s) ! i))
    \<and> val (lam1 (yielded (optimize_v0_loop Orbit' at' sg n bt s) ! i)) = val (lam1 s)
    \<and> rf (yielded (optimize_v0_loop Orbit' at' sg n bt s) ! i) = rf s"
  using assms
proof (induction n arbitrary: bt s i)
  case 0
  then show ?case by simp
next
  case (Suc n)
  from Suc.prems(1) obtain j where bt: "bt = beta0 sg / Fin (2 ^ j)" ..
  have half: "\<exists>j. bt * Fin (5 / 10) = beta0 sg / Fin (2 ^ j)"
    unfolding bt fl_halve by blast
  have full: "\<exists>j. beta0 sg = beta0 sg / Fin (2 ^ j)"
    using fl_div_one [of "beta0 sg"] by metis
  let ?dv = "- bt * (g s / dg_dv0 s)"
  let ?call = "init_patched_conic Orbit' at' (Obj s) (Col2 (Fin 0) ?dv)"
  show ?case
  proof (cases "\<bar>g s\<bar> \<le> gtol sg")
    case True
    with Suc.prems(2) show ?thesis by simp
  next
    case nconv: False
    show ?thesis
    proof (cases ?call)
      case (Inl err)
      show ?thesis
      proof (cases err)
        case (ValueError msg)
        with nconv Inl have eq: "yielded (optimize_v0_loop Orbit' at' sg (Suc n) bt s)
            = yielded (optimize_v0_loop Orbit' at' sg n (bt * Fin (5 / 10)) s)"
          by (simp add: Let_def)
        show ?thesis
          using Suc.IH [OF half, of i s] Suc.prems(2) unfolding eq by simp
      next
        case ZeroDivisionError
        with nconv Inl Suc.prems(2) show ?thesis
          by (simp add: Let_def)
      next
        case OverflowError
        with nconv Inl Suc.prems(2) show ?thesis
          by (simp add: Let_def)
      qed
    next
      case (Inr xt)
      show ?thesis
      proof (cases "\<bar>g xt\<bar> < \<bar>g s\<bar>")
        case False
        with nconv Inr have eq: "yielded (optimize_v0_loop Orbit' at' sg (Suc n) bt s)
            = yielded (optimize_v0_loop Orbit' at' sg n (bt * Fin (5 / 10)) s)"
          by (simp add: Let_def)
        show ?thesis
          using Suc.IH [OF half, of i s] Suc.prems(2) unfolding eq by simp
      next
        case True
        with nconv Inr have eq: "yielded (optimize_v0_loop Orbit' at' sg (Suc n) bt s)
            = xt # yielded (optimize_v0_loop Orbit' at' sg n (beta0 sg) xt)"
          by (simp add: Let_def)
        have keep: "val (lam1 xt) = val (lam1 s)" "rf xt = rf s"
          using factory_keeps_lam1_rf [OF Inr] by simp_all
        show ?thesis
        proof (cases i)
          case 0
          have "\<exists>k. init_patched_conic Orbit' at' (Obj s)
              (Col2 (Fin 0) (- (beta0 sg / Fin (2 ^ k)) * (g s / dg_dv0 s))) = Inr xt"
            using Inr unfolding bt by blast
          then show ?thesis
            unfolding eq 0 using True keep by simp
        next
          case (Suc i')
          with Suc.prems(2) have lt: "i' < length (yielded (optimize_v0_loop Orbit' at' sg n (beta0 sg) xt))"
            unfolding eq by simp
          show ?thesis
            using Suc.IH [OF full lt] unfolding eq Suc by (simp add: keep)
        qed
      qed
    qed
  qed
qed

lemma steep_lam1_rf: "lam1 (steep_conic c) = Py (Fin 0)" "rf (steep_conic c) = Py (Fin c)"
  by (simp_all add: steep_basic)

lemma Orbit_vv_stores:
  "mu (Orbit_vv m r' v' p') = m" "OrbitState.r (Orbit_vv m r' v' p') = r'"
  "OrbitState.v (Orbit_vv m r' v' p') = v'" "OrbitState.phi (Orbit_vv m r' v' p') = p'"
  by (simp_all add: Orbit_vv_def Let_def)

lemma factory_at_slow:
  assumes "val (lam1 s) = Fin 0" and "rf s = Py (Fin c)" and "c \<noteq> 0"
    and "\<not> div_raises (Py (Fin mu_earth)) (OrbitState.r (depart s))"
  shows "\<exists>xt. init_patched_conic Orbit_vv at_slow (Obj s) (Col2 (Fin 0) dv) = Inr xt
           \<and> g xt = Fin c - Fin r_soi"
proof -
  let ?d = "Orbit_vv (Py (Fin mu_earth)) (OrbitState.r (depart s))
              (Np (val (OrbitState.v (depart s)) + dv)) (OrbitState.phi (depart s))"
  let ?xt = "init_attributes ?d test_arrive_slow (Np (Fin 0)) (Py (Fin c))"
  have ok: "PatchedConic_init ?d test_arrive_slow (Np (Fin 0)) (Py (Fin c)) = Inr ?xt"
    using assms(3,4) by (intro slow_init_any) (simp_all add: Orbit_vv_stores div_raises_def)
  have "init_patched_conic Orbit_vv at_slow (Obj s) (Col2 (Fin 0) dv)
      = PatchedConic_init ?d test_arrive_slow (Np (Fin 0)) (Py (Fin c))"
    using assms(1,2)
    by (simp add: init_patched_conic_def Let_def at_slow_def test_arrive_slow_def)
  moreover have "g ?xt = Fin c - Fin r_soi"
    by (simp add: g_def slow_rpl_any attributes_fields)
  ultimately show ?thesis
    using ok by metis
qed

lemma steep_run_yields_once:
  "\<exists>xt. optimize_v0 Orbit_vv at_slow SGRA_init (steep_conic r_soi) 2
           = Yield xt (Converged xt) \<and> g xt = Fin 0"
proof -
  let ?s = "steep_conic r_soi"
  let ?dv = "- beta0 SGRA_init * (g ?s / dg_dv0 ?s)"
  have nr: "\<not> div_raises (Py (Fin mu_earth)) (OrbitState.r (depart ?s))"
    by (simp add: steep_basic test_depart_def div_raises_def)
  obtain xt where call: "init_patched_conic Orbit_vv at_slow (Obj ?s) (Col2 (Fin 0) ?dv) = Inr xt"
    and gx: "g xt = Fin r_soi - Fin r_soi"
    using factory_at_slow [of ?s r_soi ?dv] steep_lam1_rf [of r_soi] r_soi_pos nr by auto
  have g0: "g xt = Fin 0"
    using gx by (simp add: minus_fl_def)
  have less: "\<bar>g xt\<bar> < \<bar>g ?s\<bar>"
    using steep_g_large by (simp add: g0 steep_g)
  have conv: "\<bar>g xt\<bar> \<le> gtol SGRA_init"
    by (simp add: g0 SGRA_init_def)
  have "optimize_v0 Orbit_vv at_slow SGRA_init ?s 2 = Yield xt (Converged xt)"
    using steep_not_converged call less conv
    by (simp add: optimize_v0_def numeral_2_eq_2 Let_def)
  with g0 show ?thesis by blast
qed

text \<open>
  C9.  Along the sequence of states \<open>optimize_v0\<close> yields, each state has a constraint
  magnitude strictly smaller than its predecessor's (the input's, for the first); each
  is what the factory returns for its predecessor and a perturbation of the departure
  speed alone, by \<open>dv0 = - beta (g / dg_dv0)\<close> with \<open>beta = beta0 / 2\<^sup>k\<close> for some
  \<open>k \<ge> 0\<close>; and each has the \<open>lam1\<close> and the \<open>rf\<close> of the input.
\<close>

theorem yields_are_damped_newton_steps:
  assumes "i < length (yielded (optimize_v0 Orbit' at' sg s n))"
  shows "\<bar>g (yielded (optimize_v0 Orbit' at' sg s n) ! i)\<bar>
           < \<bar>g ((s # yielded (optimize_v0 Orbit' at' sg s n)) ! i)\<bar>
    \<and> (\<exists>k. init_patched_conic Orbit' at'
              (Obj ((s # yielded (optimize_v0 Orbit' at' sg s n)) ! i))
              (Col2 (Fin 0)
                 (- (beta0 sg / Fin (2 ^ k))
                    * (g ((s # yielded (optimize_v0 Orbit' at' sg s n)) ! i)
                       / dg_dv0 ((s # yielded (optimize_v0 Orbit' at' sg s n)) ! i))))
            = Inr (yielded (optimize_v0 Orbit' at' sg s n) ! i))
    \<and> val (lam1 (yielded (optimize_v0 Orbit' at' sg s n) ! i)) = val (lam1 s)
    \<and> rf (yielded (optimize_v0 Orbit' at' sg s n) ! i) = rf s"
proof -
  have "\<exists>j. beta0 sg = beta0 sg / Fin (2 ^ j)"
    using fl_div_one [of "beta0 sg"] by metis
  then show ?thesis
    using assms unfolding optimize_v0_def by (rule loop_chain)
qed

theorem yields_are_damped_newton_steps_witness:
  "0 < length (yielded (optimize_v0 Orbit_vv at_slow SGRA_init (steep_conic r_soi) 2))
   \<and> \<bar>g (yielded (optimize_v0 Orbit_vv at_slow SGRA_init (steep_conic r_soi) 2) ! 0)\<bar>
       < \<bar>g (steep_conic r_soi)\<bar>
   \<and> val (lam1 (yielded (optimize_v0 Orbit_vv at_slow SGRA_init (steep_conic r_soi) 2) ! 0))
       = val (lam1 (steep_conic r_soi))
   \<and> rf (yielded (optimize_v0 Orbit_vv at_slow SGRA_init (steep_conic r_soi) 2) ! 0)
       = rf (steep_conic r_soi)"
proof -
  have len: "0 < length (yielded (optimize_v0 Orbit_vv at_slow SGRA_init (steep_conic r_soi) 2))"
    using steep_run_yields_once by auto
  show ?thesis
    using len yields_are_damped_newton_steps [OF len] by simp
qed

section \<open>Claims about the factory\<close>

lemma r1_test_pos: "0 < r1_test"
proof -
  have "0 < D ^ 2 + r_soi ^ 2"
    by (simp add: D_def add_pos_nonneg)
  then show ?thesis
    unfolding r1_test_def by simp
qed

lemma r1_test_upper: "r1_test \<le> 2 * D"
proof -
  have "r_soi < D" using r_soi_upper by (simp add: D_def)
  then have "r_soi ^ 2 \<le> D ^ 2"
    using r_soi_pos by (simp add: power_mono)
  moreover have "0 \<le> D ^ 2" by simp
  ultimately have "D ^ 2 + r_soi ^ 2 \<le> 4 * D ^ 2" by linarith
  then have "D ^ 2 + r_soi ^ 2 \<le> (2 * D) ^ 2"
    by (simp add: power_mult_distrib)
  moreover have "0 \<le> 2 * D" by (simp add: D_def)
  ultimately show ?thesis
    unfolding r1_test_def by (simp add: real_le_lsqrt)
qed

lemma sum_squares_not_neg: "\<not> D * D + r_soi * r_soi < 0"
  by (simp add: not_less)

lemma factory_r1:
  "np_sqrt (Fin D ^ 2 + Fin r_soi ^ 2 - Fin 2 * Fin D * Fin r_soi * np_cos (Fin (pi / 2) + Fin 0))
     = Fin r1_test"
  by (simp add: fl_power2 minus_fl_def r1_test_def power2_eq_square sum_squares_not_neg)

lemma a_depart_vv:
  assumes "2 / 6556400 - c ^ 2 / mu_earth \<noteq> 0"
  shows "a (test_depart_vv c) = Np (Fin (a_vv c))" "mu (test_depart_vv c) = Py (Fin mu_earth)"
  using assms
  by (simp_all add: test_depart_vv_def Orbit_vv_def Let_def fl_power2 minus_fl_def a_vv_def
      mu_earth_def power2_eq_square)

lemma arrive_vv:
  assumes "2 / 6556400 - c ^ 2 / mu_earth \<noteq> 0" and "0 \<le> 2 / r1_test - 1 / a_vv c"
  shows "a (test_arrive_vv c) = Np (Fin (a_vv c))"
    and "\<not> np_isnan (val (OrbitState.v (test_arrive_vv c)))"
proof -
  have nz: "a_vv c \<noteq> 0"
    using assms(1) by (simp add: a_vv_def)
  have "0 \<le> mu_earth * (2 / r1_test - 1 / a_vv c)"
    using assms(2) by (simp add: mu_earth_def)
  then have "OrbitState.v (test_arrive_vv c)
      = Np (Fin (sqrt (mu_earth * (2 / r1_test - 1 / a_vv c))))"
    using r1_test_pos nz
    by (simp add: test_arrive_vv_def at_vv_def Let_def a_depart_vv [OF assms(1)] minus_fl_def)
  then show "\<not> np_isnan (val (OrbitState.v (test_arrive_vv c)))" by simp
  show "a (test_arrive_vv c) = Np (Fin (a_vv c))"
    by (simp add: test_arrive_vv_def at_vv_def Let_def a_depart_vv [OF assms(1)])
qed

lemma factory_test_tuple:
  "init_patched_conic Orbit_vv at_vv (test_tuple c) (Col2 (Fin 0) (Fin 0))
     = (if np_isnan (val (OrbitState.v (test_arrive_vv c)))
        then Inl (ValueError ''expected radius is not reached'')
        else PatchedConic_init (test_depart_vv c) (test_arrive_vv c)
               (Np (Fin (pi / 2))) (Py (Fin 1937000)))"
  unfolding init_patched_conic_def test_tuple_def
  by (simp add: Let_def test_arrive_vv_def test_depart_vv_def
      fl_power2 minus_fl_def r1_test_def power2_eq_square sum_squares_not_neg)

lemma hyperbolic:
  "2 / 6556400 - 12000 ^ 2 / mu_earth \<noteq> 0" "a_vv 12000 < 0"
  by (simp_all add: a_vv_def mu_earth_def)

lemma elliptic:
  "2 / 6556400 - 11000 ^ 2 / mu_earth \<noteq> 0" "0 < a_vv 11000" "2 * D < 2 * a_vv 11000"
  by (simp_all add: a_vv_def mu_earth_def D_def)

lemma arrive_hyperbolic:
  "a (test_arrive_vv 12000) = Np (Fin (a_vv 12000))"
  "\<not> np_isnan (val (OrbitState.v (test_arrive_vv 12000)))"
proof -
  note nz = hyperbolic(1)
  have "0 \<le> 2 / r1_test" using r1_test_pos by simp
  moreover have "1 / a_vv 12000 \<le> 0" using hyperbolic(2) by simp
  ultimately have "0 \<le> 2 / r1_test - 1 / a_vv 12000" by linarith
  from arrive_vv [OF nz this]
  show "a (test_arrive_vv 12000) = Np (Fin (a_vv 12000))"
    "\<not> np_isnan (val (OrbitState.v (test_arrive_vv 12000)))" .
qed

lemma arrive_elliptic:
  "a (test_arrive_vv 11000) = Np (Fin (a_vv 11000))"
  "\<not> np_isnan (val (OrbitState.v (test_arrive_vv 11000)))"
  "0 < a_vv 11000"
proof -
  note nz = elliptic(1)
  show pos: "0 < a_vv 11000"
    by (rule elliptic(2))
  have "r1_test < 2 * a_vv 11000"
    using r1_test_upper elliptic(3) by linarith
  then have "1 / a_vv 11000 < 2 / r1_test"
    using pos r1_test_pos by (simp add: field_simps)
  then have "0 \<le> 2 / r1_test - 1 / a_vv 11000" by simp
  from arrive_vv [OF nz this]
  show "a (test_arrive_vv 11000) = Np (Fin (a_vv 11000))"
    "\<not> np_isnan (val (OrbitState.v (test_arrive_vv 11000)))" .
qed

lemma pow_raises_numpy: "\<not> is_py y \<Longrightarrow> \<not> pow_raises y n"
  by (cases y) simp_all

lemma numpy_no_raise:
  assumes "\<not> is_py (a ar)" and "\<not> is_py (OrbitState.r ar)" and "\<not> is_py (OrbitState.v ar)"
    and "\<not> is_py (OrbitState.v d)"
  shows "init_raises d ar l rf'
           = (if div_raises (Py (Fin mu_moon)) rf' then Some ZeroDivisionError else None)"
    and "compute_gradients (init_attributes d ar l rf')
           = (if div_raises (mu d) (OrbitState.r d) then Some ZeroDivisionError else None)"
  using assms
  by (simp_all add: init_raises_def compute_gradients_def attributes_fields pow_raises_numpy
      div_raises_def)

lemma vv_kinds:
  "\<not> is_py (a (test_arrive_vv c))" "\<not> is_py (OrbitState.r (test_arrive_vv c))"
  "\<not> is_py (OrbitState.v (test_arrive_vv c))" "\<not> is_py (OrbitState.v (test_depart_vv c))"
  "\<not> div_raises (mu (test_depart_vv c)) (OrbitState.r (test_depart_vv c))"
  by (simp_all add: test_arrive_vv_def test_depart_vv_def at_vv_def Orbit_vv_def Let_def
      div_raises_def)

lemma outbound_conic_init:
  "PatchedConic_init (test_depart_vv 11000) (test_arrive_vv 11000)
     (Np (Fin (pi / 2))) (Py (Fin 1937000)) = Inr outbound_conic"
  unfolding outbound_conic_def
proof (rule init_ok)
  show "\<not> val (a (test_arrive_vv 11000)) \<le> Fin 0"
    using arrive_elliptic(3) by (simp add: arrive_elliptic(1))
  show "init_raises (test_depart_vv 11000) (test_arrive_vv 11000)
          (Np (Fin (pi / 2))) (Py (Fin 1937000)) = None"
    by (simp add: numpy_no_raise(1) [OF vv_kinds(1-4)] div_raises_def)
  show "compute_gradients (init_attributes (test_depart_vv 11000) (test_arrive_vv 11000)
          (Np (Fin (pi / 2))) (Py (Fin 1937000))) = None"
    by (simp add: numpy_no_raise(2) [OF vv_kinds(1-4)] vv_kinds(5))
qed

lemma factory_elliptic:
  "init_patched_conic Orbit_vv at_vv (test_tuple 11000) (Col2 (Fin 0) (Fin 0))
     = Inr outbound_conic"
  by (simp add: factory_test_tuple arrive_elliptic(2) outbound_conic_init)

lemma infinite_speed:
  "val (OrbitState.v (at_infinite (test_depart_vv 11000) (Np (Fin r1_test)))) = PInf"
  "\<not> np_isnan (val (OrbitState.v (at_infinite (test_depart_vv 11000) (Np (Fin r1_test)))))"
  by (simp_all add: at_infinite_def)

lemma factory_infinite:
  "init_patched_conic Orbit_vv at_infinite (test_tuple 11000) (Col2 (Fin 0) (Fin 0))
     = Inr (init_attributes (test_depart_vv 11000)
              (at_infinite (test_depart_vv 11000) (Np (Fin r1_test)))
              (Np (Fin (pi / 2))) (Py (Fin 1937000)))"
proof -
  let ?icp = "at_infinite (test_depart_vv 11000) (Np (Fin r1_test))"
  have kinds: "\<not> is_py (a ?icp)" "\<not> is_py (OrbitState.r ?icp)" "\<not> is_py (OrbitState.v ?icp)"
    by (simp_all add: at_infinite_def a_depart_vv(1) [OF elliptic(1)])
  have ini: "PatchedConic_init (test_depart_vv 11000) ?icp (Np (Fin (pi / 2))) (Py (Fin 1937000))
      = Inr (init_attributes (test_depart_vv 11000) ?icp (Np (Fin (pi / 2))) (Py (Fin 1937000)))"
  proof (rule init_ok)
    show "\<not> val (a ?icp) \<le> Fin 0"
      using elliptic(2) by (simp add: at_infinite_def a_depart_vv(1) [OF elliptic(1)])
    show "init_raises (test_depart_vv 11000) ?icp (Np (Fin (pi / 2))) (Py (Fin 1937000)) = None"
      by (simp add: numpy_no_raise(1) [OF kinds vv_kinds(4)] div_raises_def)
    show "compute_gradients (init_attributes (test_depart_vv 11000) ?icp
            (Np (Fin (pi / 2))) (Py (Fin 1937000))) = None"
      by (simp add: numpy_no_raise(2) [OF kinds vv_kinds(4)] vv_kinds(5))
  qed
  have "init_patched_conic Orbit_vv at_infinite (test_tuple 11000) (Col2 (Fin 0) (Fin 0))
      = PatchedConic_init (test_depart_vv 11000) ?icp (Np (Fin (pi / 2))) (Py (Fin 1937000))"
    unfolding init_patched_conic_def test_tuple_def
    by (simp add: Let_def test_depart_vv_def at_infinite_def
        fl_power2 minus_fl_def r1_test_def power2_eq_square sum_squares_not_neg)
  then show ?thesis
    by (simp add: ini)
qed

text \<open>
  C8, as the claim states it, fails in both halves.  A reachable intercept radius does
  not make the factory return a patched conic: a departure at 12 km/s from the parking
  orbit is hyperbolic, the intercept speed is a number, not nan, and the factory fails
  with the precondition error of the constructor.  And a non-finite intercept speed does
  not make it fail: the test is for nan only, so for an intercept state whose speed is
  infinite the factory returns a patched conic.
\<close>

theorem factory_outcome_counterexample:
  "\<not> np_isnan (val (OrbitState.v (test_arrive_vv 12000)))
   \<and> init_patched_conic Orbit_vv at_vv (test_tuple 12000) (Col2 (Fin 0) (Fin 0))
       = Inl (ValueError ''expected elliptical trajectory'')
   \<and> val (OrbitState.v (at_infinite (test_depart_vv 11000) (Np (Fin r1_test)))) = PInf
   \<and> init_patched_conic Orbit_vv at_infinite (test_tuple 11000) (Col2 (Fin 0) (Fin 0))
       = Inr (init_attributes (test_depart_vv 11000)
                (at_infinite (test_depart_vv 11000) (Np (Fin r1_test)))
                (Np (Fin (pi / 2))) (Py (Fin 1937000)))"
proof -
  have "val (a (test_arrive_vv 12000)) \<le> Fin 0"
    using hyperbolic(2) by (simp add: arrive_hyperbolic(1))
  then have "PatchedConic_init (test_depart_vv 12000) (test_arrive_vv 12000)
      (Np (Fin (pi / 2))) (Py (Fin 1937000)) = Inl (ValueError ''expected elliptical trajectory'')"
    by (simp add: PatchedConic_init_def)
  then have "init_patched_conic Orbit_vv at_vv (test_tuple 12000) (Col2 (Fin 0) (Fin 0))
       = Inl (ValueError ''expected elliptical trajectory'')"
    by (simp add: factory_test_tuple arrive_hyperbolic(2))
  then show ?thesis
    using arrive_hyperbolic(2) infinite_speed(1) factory_infinite by simp
qed

text \<open>
  C8, amended.  If the intercept speed that \<open>at\<close> returns is nan, the factory fails with
  the invalid-trajectory error before any patched conic is built.  Otherwise it calls the
  constructor on the new departure and intercept states and the perturbed parameters,
  and ends as the constructor does: with the precondition error if the intercept's
  semimajor axis is not positive; else with the \<open>ZeroDivisionError\<close> or \<open>OverflowError\<close>
  of a division or power of two Python floats, if one raises; else with the freshly
  constructed patched conic, whose \<open>depart\<close>, \<open>arrive\<close>, \<open>lam1\<close> and \<open>rf\<close> are the new ones.
\<close>

theorem factory_outcomes:
  assumes "solution_tuple sol = (sa, sb, sc, sd, se)"
    and "dep = Orbit' (Py (Fin mu_earth)) sa (Np (val sb + row1 dx)) sc"
    and "icp = at' dep (Np (np_sqrt (Fin D ^ 2 + Fin r_soi ^ 2
                 - Fin 2 * Fin D * Fin r_soi * np_cos (val sd + row0 dx))))"
  shows "(np_isnan (val (OrbitState.v icp)) \<longrightarrow>
            init_patched_conic Orbit' at' sol dx
              = Inl (ValueError ''expected radius is not reached''))
    \<and> (\<not> np_isnan (val (OrbitState.v icp)) \<and> val (a icp) \<le> Fin 0 \<longrightarrow>
            init_patched_conic Orbit' at' sol dx
              = Inl (ValueError ''expected elliptical trajectory''))
    \<and> (\<not> np_isnan (val (OrbitState.v icp)) \<and> \<not> val (a icp) \<le> Fin 0 \<longrightarrow>
          init_patched_conic Orbit' at' sol dx
            = (case init_raises dep icp (Np (val sd + row0 dx)) se of
                 Some err \<Rightarrow> Inl err
               | None \<Rightarrow>
                   (case compute_gradients (init_attributes dep icp (Np (val sd + row0 dx)) se) of
                      Some err \<Rightarrow> Inl err
                    | None \<Rightarrow> Inr (init_attributes dep icp (Np (val sd + row0 dx)) se)))
          \<and> (init_patched_conic Orbit' at' sol dx = Inl ZeroDivisionError
             \<or> init_patched_conic Orbit' at' sol dx = Inl OverflowError
             \<or> init_patched_conic Orbit' at' sol dx
                 = Inr (init_attributes dep icp (Np (val sd + row0 dx)) se)))
    \<and> depart (init_attributes dep icp (Np (val sd + row0 dx)) se) = dep
    \<and> arrive (init_attributes dep icp (Np (val sd + row0 dx)) se) = icp
    \<and> lam1 (init_attributes dep icp (Np (val sd + row0 dx)) se) = Np (val sd + row0 dx)
    \<and> rf (init_attributes dep icp (Np (val sd + row0 dx)) se) = se"
proof -
  let ?lm = "Np (val sd + row0 dx)"
  have unf: "init_patched_conic Orbit' at' sol dx
      = (if np_isnan (val (OrbitState.v icp))
         then Inl (ValueError ''expected radius is not reached'')
         else PatchedConic_init dep icp ?lm se)"
    using assms by (simp add: init_patched_conic_def Let_def)
  have bad: "val (a icp) \<le> Fin 0 \<Longrightarrow>
      PatchedConic_init dep icp ?lm se = Inl (ValueError ''expected elliptical trajectory'')"
    by (simp add: PatchedConic_init_def)
  have good: "PatchedConic_init dep icp ?lm se
      = (case init_raises dep icp ?lm se of
           Some err \<Rightarrow> Inl err
         | None \<Rightarrow> (case compute_gradients (init_attributes dep icp ?lm se) of
                      Some err \<Rightarrow> Inl err
                    | None \<Rightarrow> Inr (init_attributes dep icp ?lm se)))"
    if "\<not> val (a icp) \<le> Fin 0"
    using that by (simp add: PatchedConic_init_def Let_def split: option.splits)
  have kinds: "PatchedConic_init dep icp ?lm se = Inl ZeroDivisionError
      \<or> PatchedConic_init dep icp ?lm se = Inl OverflowError
      \<or> PatchedConic_init dep icp ?lm se = Inr (init_attributes dep icp ?lm se)"
    if "\<not> val (a icp) \<le> Fin 0"
    using good [OF that] init_raises_kinds [of dep icp ?lm se]
      compute_gradients_kinds [of "init_attributes dep icp ?lm se"]
    by (auto split: option.splits)
  show ?thesis
    using bad good kinds by (simp add: unf attributes_fields)
qed

theorem factory_outcomes_witness:
  "init_patched_conic Orbit_vv at_unreachable (test_tuple 11000) (Col2 (Fin 0) (Fin 0))
     = Inl (ValueError ''expected radius is not reached'')
   \<and> init_patched_conic Orbit_vv at_vv (test_tuple 12000) (Col2 (Fin 0) (Fin 0))
     = Inl (ValueError ''expected elliptical trajectory'')
   \<and> init_patched_conic Orbit_vv at_vv test_tuple_rf0 (Col2 (Fin 0) (Fin 0))
     = Inl ZeroDivisionError
   \<and> init_patched_conic Orbit_vv at_vv (test_tuple 11000) (Col2 (Fin 0) (Fin 0))
     = Inr outbound_conic
   \<and> depart outbound_conic = test_depart_vv 11000
   \<and> arrive outbound_conic = test_arrive_vv 11000
   \<and> lam1 outbound_conic = Np (Fin (pi / 2)) \<and> rf outbound_conic = Py (Fin 1937000)"
proof -
  have tup: "solution_tuple (test_tuple c)
      = (Py (Fin 6556400), Py (Fin c), Py (Fin 0), Py (Fin (pi / 2)), Py (Fin 1937000))" for c
    by (simp add: test_tuple_def)
  have tup0: "solution_tuple test_tuple_rf0
      = (Py (Fin 6556400), Py (Fin 11000), Py (Fin 0), Py (Fin (pi / 2)), Py (Fin 0))"
    by (simp add: test_tuple_rf0_def)
  have dep: "test_depart_vv c = Orbit_vv (Py (Fin mu_earth)) (Py (Fin 6556400))
      (Np (val (Py (Fin c)) + row1 (Col2 (Fin 0) (Fin 0)))) (Py (Fin 0))" for c
    by (simp add: test_depart_vv_def)
  have icp: "test_arrive_vv c = at_vv (test_depart_vv c)
      (Np (np_sqrt (Fin D ^ 2 + Fin r_soi ^ 2
         - Fin 2 * Fin D * Fin r_soi
             * np_cos (val (Py (Fin (pi / 2))) + row0 (Col2 (Fin 0) (Fin 0))))))" for c
    using factory_r1 by (simp add: test_arrive_vv_def)
  have un: "at_unreachable (test_depart_vv 11000)
      (Np (np_sqrt (Fin D ^ 2 + Fin r_soi ^ 2
         - Fin 2 * Fin D * Fin r_soi
             * np_cos (val (Py (Fin (pi / 2))) + row0 (Col2 (Fin 0) (Fin 0))))))
      = at_unreachable (test_depart_vv 11000)
      (Np (np_sqrt (Fin D ^ 2 + Fin r_soi ^ 2
         - Fin 2 * Fin D * Fin r_soi
             * np_cos (val (Py (Fin (pi / 2))) + row0 (Col2 (Fin 0) (Fin 0))))))" ..
  have nan: "np_isnan (val (OrbitState.v (at_unreachable (test_depart_vv 11000)
      (Np (np_sqrt (Fin D ^ 2 + Fin r_soi ^ 2
         - Fin 2 * Fin D * Fin r_soi
             * np_cos (val (Py (Fin (pi / 2))) + row0 (Col2 (Fin 0) (Fin 0)))))))))"
    by (simp add: at_unreachable_def)
  have hyp: "val (a (test_arrive_vv 12000)) \<le> Fin 0"
    using hyperbolic(2) by (simp add: arrive_hyperbolic(1))
  have ell: "\<not> val (a (test_arrive_vv 11000)) \<le> Fin 0"
    using arrive_elliptic(3) by (simp add: arrive_elliptic(1))
  have sum0: "Np (val (Py (Fin (pi / 2))) + row0 (Col2 (Fin 0) (Fin 0))) = Np (Fin (pi / 2))"
    by simp
  have zero: "init_raises (test_depart_vv 11000) (test_arrive_vv 11000)
      (Np (Fin (pi / 2))) (Py (Fin 0)) = Some ZeroDivisionError"
    by (simp add: numpy_no_raise(1) [OF vv_kinds(1-4)] div_raises_def)
  have fine: "init_raises (test_depart_vv 11000) (test_arrive_vv 11000)
      (Np (Fin (pi / 2))) (Py (Fin 1937000)) = None"
    "compute_gradients (init_attributes (test_depart_vv 11000) (test_arrive_vv 11000)
      (Np (Fin (pi / 2))) (Py (Fin 1937000))) = None"
    by (simp add: numpy_no_raise(1) [OF vv_kinds(1-4)] div_raises_def,
        simp add: numpy_no_raise(2) [OF vv_kinds(1-4)] vv_kinds(5))
  note o1 = factory_outcomes [where sol = "test_tuple 11000" and Orbit' = Orbit_vv
      and at' = at_unreachable and dx = "Col2 (Fin 0) (Fin 0)", OF tup dep un, unfolded sum0]
  note o2 = factory_outcomes [where sol = "test_tuple 12000" and Orbit' = Orbit_vv
      and at' = at_vv and dx = "Col2 (Fin 0) (Fin 0)", OF tup dep icp, unfolded sum0]
  note o3 = factory_outcomes [where sol = "test_tuple_rf0" and Orbit' = Orbit_vv
      and at' = at_vv and dx = "Col2 (Fin 0) (Fin 0)", OF tup0 dep icp, unfolded sum0]
  note o4 = factory_outcomes [where sol = "test_tuple 11000" and Orbit' = Orbit_vv
      and at' = at_vv and dx = "Col2 (Fin 0) (Fin 0)", OF tup dep icp, unfolded sum0]
  have c1: "init_patched_conic Orbit_vv at_unreachable (test_tuple 11000) (Col2 (Fin 0) (Fin 0))
     = Inl (ValueError ''expected radius is not reached'')"
    using o1 nan by blast
  have c2: "init_patched_conic Orbit_vv at_vv (test_tuple 12000) (Col2 (Fin 0) (Fin 0))
     = Inl (ValueError ''expected elliptical trajectory'')"
    using o2 arrive_hyperbolic(2) hyp by blast
  have "init_patched_conic Orbit_vv at_vv test_tuple_rf0 (Col2 (Fin 0) (Fin 0))
     = (case init_raises (test_depart_vv 11000) (test_arrive_vv 11000)
               (Np (Fin (pi / 2))) (Py (Fin 0)) of
          Some err \<Rightarrow> Inl err
        | None \<Rightarrow>
            (case compute_gradients (init_attributes (test_depart_vv 11000)
                    (test_arrive_vv 11000) (Np (Fin (pi / 2))) (Py (Fin 0))) of
               Some err \<Rightarrow> Inl err
             | None \<Rightarrow> Inr (init_attributes (test_depart_vv 11000) (test_arrive_vv 11000)
                              (Np (Fin (pi / 2))) (Py (Fin 0)))))"
    using o3 arrive_elliptic(2) ell by blast
  then have c3: "init_patched_conic Orbit_vv at_vv test_tuple_rf0 (Col2 (Fin 0) (Fin 0))
     = Inl ZeroDivisionError"
    by (simp add: zero)
  have "init_patched_conic Orbit_vv at_vv (test_tuple 11000) (Col2 (Fin 0) (Fin 0))
     = (case init_raises (test_depart_vv 11000) (test_arrive_vv 11000)
               (Np (Fin (pi / 2))) (Py (Fin 1937000)) of
          Some err \<Rightarrow> Inl err
        | None \<Rightarrow>
            (case compute_gradients (init_attributes (test_depart_vv 11000)
                    (test_arrive_vv 11000) (Np (Fin (pi / 2))) (Py (Fin 1937000))) of
               Some err \<Rightarrow> Inl err
             | None \<Rightarrow> Inr (init_attributes (test_depart_vv 11000) (test_arrive_vv 11000)
                              (Np (Fin (pi / 2))) (Py (Fin 1937000)))))"
    using o4 arrive_elliptic(2) ell by blast
  then have c4: "init_patched_conic Orbit_vv at_vv (test_tuple 11000) (Col2 (Fin 0) (Fin 0))
     = Inr outbound_conic"
    by (simp add: fine outbound_conic_def)
  have c5: "depart outbound_conic = test_depart_vv 11000"
    "arrive outbound_conic = test_arrive_vv 11000"
    "lam1 outbound_conic = Np (Fin (pi / 2))" "rf outbound_conic = Py (Fin 1937000)"
    using o4 unfolding outbound_conic_def by blast+
  show ?thesis
    using c1 c2 c3 c4 c5 by simp
qed

lemma np_arccos_not_minus_one: "np_arccos y \<noteq> Fin (- 1)"
proof (cases y)
  case (Fin c)
  have "- 1 \<le> c \<Longrightarrow> c \<le> 1 \<Longrightarrow> arccos c \<noteq> - 1"
    using arccos_lbound [of c] by linarith
  then show ?thesis
    unfolding Fin by simp
qed simp_all

lemma inbound_conic_init:
  "PatchedConic_init (test_depart_vv 11000)
     ((test_arrive_vv 11000)\<lparr>OrbitState.phi := Np (Fin (- 1))\<rparr>)
     (Np (Fin (pi / 2))) (Py (Fin 1937000))
   = Inr inbound_conic"
  unfolding inbound_conic_def
proof (rule init_ok)
  let ?ar = "(test_arrive_vv 11000)\<lparr>OrbitState.phi := Np (Fin (- 1))\<rparr>"
  have kinds: "\<not> is_py (a ?ar)" "\<not> is_py (OrbitState.r ?ar)" "\<not> is_py (OrbitState.v ?ar)"
    using vv_kinds(1-3) [of 11000] by simp_all
  show "\<not> val (a ?ar) \<le> Fin 0"
    using arrive_elliptic(3) by (simp add: arrive_elliptic(1))
  show "init_raises (test_depart_vv 11000) ?ar (Np (Fin (pi / 2))) (Py (Fin 1937000)) = None"
    by (simp add: numpy_no_raise(1) [OF kinds vv_kinds(4)] div_raises_def)
  show "compute_gradients (init_attributes (test_depart_vv 11000) ?ar
          (Np (Fin (pi / 2))) (Py (Fin 1937000))) = None"
    by (simp add: numpy_no_raise(2) [OF kinds vv_kinds(4)] vv_kinds(5))
qed

text \<open>
  C6, as the claim states it, fails: the factory rebuilds the arrival state from the
  departure state, on the outbound branch, so a patched conic that the constructor built
  from another arrival state does not come back.
\<close>

theorem factory_round_trip_counterexample:
  "PatchedConic_init (test_depart_vv 11000)
     ((test_arrive_vv 11000)\<lparr>OrbitState.phi := Np (Fin (- 1))\<rparr>)
     (Np (Fin (pi / 2))) (Py (Fin 1937000))
   = Inr inbound_conic
   \<and> init_patched_conic Orbit_vv at_vv (Obj inbound_conic) (Col2 (Fin 0) (Fin 0))
     = Inr outbound_conic
   \<and> arrive outbound_conic \<noteq> arrive inbound_conic"
proof -
  note fs = init_fields [OF inbound_conic_init]
  have same: "init_patched_conic Orbit_vv at_vv (Obj inbound_conic) (Col2 (Fin 0) (Fin 0))
      = init_patched_conic Orbit_vv at_vv (test_tuple 11000) (Col2 (Fin 0) (Fin 0))"
    by (simp add: init_patched_conic_def Let_def fs test_depart_vv_def Orbit_vv_stores
        test_tuple_def)
  have arr: "arrive outbound_conic = test_arrive_vv 11000"
    by (simp add: outbound_conic_def attributes_fields)
  have "OrbitState.phi (test_arrive_vv 11000) \<noteq> Np (Fin (- 1))"
    by (simp add: test_arrive_vv_def at_vv_def Let_def np_arccos_not_minus_one)
  then have "test_arrive_vv 11000 \<noteq> (test_arrive_vv 11000)\<lparr>OrbitState.phi := Np (Fin (- 1))\<rparr>"
    by (metis OrbitState.select_convs(4) OrbitState.surjective OrbitState.update_convs(4))
  then show ?thesis
    unfolding arr by (simp add: inbound_conic_init fs same factory_elliptic)
qed

text \<open>
  C6, amended.  For a patched conic that the factory itself returned, and an orbit
  constructor that keeps the \<open>r\<close>, \<open>v\<close> and \<open>phi\<close> it is given, calling the factory on it
  with the zero perturbation returns that same patched conic: every attribute is equal,
  and so are the cost and the constraint computed from them.
\<close>

theorem factory_round_trip:
  assumes "\<And>m rr vv pp. OrbitState.r (Orbit' m rr vv pp) = rr
              \<and> OrbitState.v (Orbit' m rr vv pp) = vv
              \<and> OrbitState.phi (Orbit' m rr vv pp) = pp"
    and "init_patched_conic Orbit' at' sol dx = Inr pc"
  shows "init_patched_conic Orbit' at' (Obj pc) (Col2 (Fin 0) (Fin 0)) = Inr pc"
proof -
  obtain sa sb sc sd se where tup: "solution_tuple sol = (sa, sb, sc, sd, se)"
    by (cases "solution_tuple sol") auto
  note fr = factory_result [OF assms(2) tup]
  have tup': "solution_tuple (Obj pc)
      = (sa, Np (val sb + row1 dx), sc, Np (val sd + row0 dx), se)"
    using assms(1) by (simp add: fr(1,3,4))
  have dep: "Orbit' (Py (Fin mu_earth)) sa
      (Np (val (Np (val sb + row1 dx)) + row1 (Col2 (Fin 0) (Fin 0)))) sc = depart pc"
    by (simp add: fr(1))
  have lm: "Np (val (Np (val sd + row0 dx)) + row0 (Col2 (Fin 0) (Fin 0))) = lam1 pc"
    by (simp add: fr(3))
  have arr: "at' (depart pc) (Np (np_sqrt (Fin D ^ 2 + Fin r_soi ^ 2
                 - Fin 2 * Fin D * Fin r_soi * np_cos (val (lam1 pc))))) = arrive pc"
    unfolding fr(1) fr(3) val.simps by (rule fr(2) [symmetric])
  have "init_patched_conic Orbit' at' (Obj pc) (Col2 (Fin 0) (Fin 0))
      = (if np_isnan (val (OrbitState.v (arrive pc)))
         then Inl (ValueError ''expected radius is not reached'')
         else PatchedConic_init (depart pc) (arrive pc) (lam1 pc) se)"
    unfolding init_patched_conic_def tup' prod.case Let_def dep lm arr ..
  then show ?thesis
    using fr(5) by (simp add: fr(6) fr(4) [symmetric])
qed

theorem factory_round_trip_witness:
  "init_patched_conic Orbit_vv at_vv (test_tuple 11000) (Col2 (Fin 0) (Fin 0))
     = Inr outbound_conic
   \<and> init_patched_conic Orbit_vv at_vv (Obj outbound_conic) (Col2 (Fin 0) (Fin 0))
     = Inr outbound_conic"
proof -
  have stores: "OrbitState.r (Orbit_vv m rr vv pp) = rr
              \<and> OrbitState.v (Orbit_vv m rr vv pp) = vv
              \<and> OrbitState.phi (Orbit_vv m rr vv pp) = pp" for m rr vv pp
    by (simp add: Orbit_vv_stores)
  show ?thesis
    using factory_round_trip [of Orbit_vv at_vv, OF stores factory_elliptic] factory_elliptic
    by simp
qed

end
